theory Spec2Isabelle
  imports Main
begin

section \<open>Python values, errors and text helpers\<close>

text \<open>
  The module \<^verbatim>\<open>trickkiste/base_tui_app.py\<close> bridges Python's \<^verbatim>\<open>logging\<close> into a
  textual \<^verbatim>\<open>RichLog\<close> widget. Values that travel through a log record are modelled by
  \<open>pyval\<close>; exceptions are values of \<open>error\<close>, and a call that may raise returns
  \<open>error + 'a\<close> with \<open>Inl\<close> for the exception.
\<close>

datatype pyval = PStr string | PInt int | PNone

datatype error =
    TypeError
  | ValueError
  | KeyError string
  | MarkupError
  | OtherError string  \<comment> \<open>any other exception, by the name of its class\<close>

text \<open>
  \<open>record.args\<close> is \<open>None\<close>, a tuple of positional arguments, or (when the logging call
  was given a single non-empty mapping) that mapping.
\<close>

datatype pyargs = ArgsNone | ArgsTuple "pyval list" | ArgsDict "(pyval \<times> pyval) list"

text \<open>Python truthiness of \<open>record.args\<close>: \<open>None\<close> and empty collections are falsy.\<close>

fun truthy :: "pyargs \<Rightarrow> bool" where
  "truthy ArgsNone = False"
| "truthy (ArgsTuple xs) = (xs \<noteq> [])"
| "truthy (ArgsDict kvs) = (kvs \<noteq> [])"

text \<open>
  Iterating \<open>record.args\<close>: a tuple yields its elements, a mapping yields its keys,
  and \<open>None\<close> is not iterable.
\<close>

fun iter_args :: "pyargs \<Rightarrow> error + pyval list" where
  "iter_args ArgsNone = Inl TypeError"
| "iter_args (ArgsTuple xs) = Inr xs"
| "iter_args (ArgsDict kvs) = Inr (map fst kvs)"

text \<open>
  Text is a list of bytes, the UTF-8 encoding of the Python string. The box-drawing
  character U+2502 of the format strings is its three bytes. Python counts a string
  in characters: \<open>py_len\<close> counts the bytes that start a character, that is, all but
  the continuation bytes \<open>0x80\<close> to \<open>0xBF\<close>.
\<close>

definition bar :: string where
  "bar = [CHR 0xE2, CHR 0x94, CHR 0x82]"

definition backslash :: char where
  "backslash = CHR 0x5C"

definition newline :: char where
  "newline = CHR 0x0A"

definition is_continuation :: "char \<Rightarrow> bool" where
  "is_continuation c = ((of_char c :: nat) \<ge> 128 \<and> (of_char c :: nat) < 192)"

definition py_len :: "string \<Rightarrow> nat" where
  "py_len s = length (filter (\<lambda>c. \<not> is_continuation c) s)"

fun digit_char :: "nat \<Rightarrow> char" where
  "digit_char n = char_of (48 + n)"

fun str_nat :: "nat \<Rightarrow> string" where
  "str_nat n = (if n < 10 then [digit_char n] else str_nat (n div 10) @ [digit_char (n mod 10)])"

declare str_nat.simps [simp del]

definition str_int :: "int \<Rightarrow> string" where
  "str_int i = (if i < 0 then CHR ''-'' # str_nat (nat (- i)) else str_nat (nat i))"

text \<open>Python's \<open>str(v)\<close>.\<close>

fun py_str :: "pyval \<Rightarrow> string" where
  "py_str (PStr s) = s"
| "py_str (PInt i) = str_int i"
| "py_str PNone = ''None''"

text \<open>\<open>str.ljust\<close> and \<open>str.rjust\<close> with a blank as the fill character.\<close>

definition ljust :: "nat \<Rightarrow> string \<Rightarrow> string" where
  "ljust w s = s @ replicate (w - py_len s) CHR '' ''"

definition rjust :: "nat \<Rightarrow> string \<Rightarrow> string" where
  "rjust w s = replicate (w - py_len s) CHR '' '' @ s"

fun starts_with :: "string \<Rightarrow> string \<Rightarrow> bool" where
  "starts_with [] s = True"
| "starts_with (p # ps) [] = False"
| "starts_with (p # ps) (c # cs) = (p = c \<and> starts_with ps cs)"

text \<open>\<open>s.find(p) >= 0\<close>: the text \<open>p\<close> occurs in \<open>s\<close>.\<close>

fun contains :: "string \<Rightarrow> string \<Rightarrow> bool" where
  "contains p [] = starts_with p []"
| "contains p (c # cs) = (starts_with p (c # cs) \<or> contains p cs)"

section \<open>\<open>rich.markup.escape\<close>\<close>

text \<open>
  \<open>markup_escape\<close> is \<^verbatim>\<open>rich.markup.escape\<close>, a function of the rich library. It
  substitutes every match of the regular expression
  \<^verbatim>\<open>(\\*)(\[[a-z#/@][^[]*?])\<close> (a run of backslashes, then a tag: an opening
  bracket, a tag-start character, and the shortest run of characters other than an
  opening bracket up to a closing bracket) by the backslashes doubled, one more
  backslash and the tag; a result that ends in exactly one backslash gets one more.
\<close>

definition tag_start :: "char \<Rightarrow> bool" where
  "tag_start c =
     ((of_char c :: nat) \<ge> 97 \<and> (of_char c :: nat) \<le> 122
      \<or> c = CHR ''#'' \<or> c = CHR ''/'' \<or> c = CHR ''@'')"

text \<open>After the tag-start character: a closing bracket comes before any opening one.\<close>

fun closes :: "string \<Rightarrow> bool" where
  "closes [] = False"
| "closes (c # cs) = (c = CHR '']'' \<or> (c \<noteq> CHR ''['' \<and> closes cs))"

fun is_tag :: "string \<Rightarrow> bool" where
  "is_tag (c # d # ds) = (c = CHR ''['' \<and> tag_start d \<and> closes ds)"
| "is_tag _ = False"

datatype esc_mode = Outside nat | InTag

text \<open>
  The substitution as one pass over the text: \<open>Outside n\<close> has read \<open>n\<close> backslashes
  not yet written out; \<open>InTag\<close> copies a matched tag up to its closing bracket.
\<close>

fun escape_from :: "esc_mode \<Rightarrow> string \<Rightarrow> string" where
  "escape_from (Outside n) [] = replicate n backslash"
| "escape_from InTag [] = []"
| "escape_from (Outside n) (c # cs) =
     (if c = backslash then escape_from (Outside (Suc n)) cs
      else if is_tag (c # cs)
        then replicate (2 * n + 1) backslash @ c # escape_from InTag cs
      else replicate n backslash @ c # escape_from (Outside 0) cs)"
| "escape_from InTag (c # cs) =
     c # (if c = CHR '']'' then escape_from (Outside 0) cs else escape_from InTag cs)"

fun ends_single_backslash :: "string \<Rightarrow> bool" where
  "ends_single_backslash s =
     (case rev s of
        [] \<Rightarrow> False
      | [c] \<Rightarrow> c = backslash
      | c # d # _ \<Rightarrow> c = backslash \<and> d \<noteq> backslash)"

definition markup_escape :: "string \<Rightarrow> string" where
  "markup_escape markup =
     (let m = escape_from (Outside 0) markup
      in if ends_single_backslash m then m @ [backslash] else m)"

section \<open>Python's \<open>%\<close>-formatting\<close>

text \<open>
  Printf-style formatting is computed here for the formats made of literal text,
  \<open>%%\<close>, and directives with an optional mapping key \<open>(key)\<close>, optional \<open>-\<close> flags
  (left-justify), an optional minimum width and the conversion \<open>s\<close> or \<open>d\<close>.
  \<open>parse_format\<close> gives \<open>None\<close> for every other format, well-formed or not; for those
  the result of the operator, a text or an exception, is whatever Python computes,
  and the model takes it from the running process (\<open>percent_beyond\<close>,
  \<open>format_beyond\<close> below).
\<close>

datatype segment =
    Lit char
  | Field "string option" bool nat char
      \<comment> \<open>mapping key, left-justify flag, minimum width, conversion\<close>

definition prepend :: "'a list \<Rightarrow> 'a list option \<Rightarrow> 'a list option" where
  "prepend xs rest = map_option ((@) xs) rest"

datatype pstate = Text | Pct | Key string | Spec "string option" bool nat

definition is_digit :: "char \<Rightarrow> bool" where
  "is_digit c = ((of_char c :: nat) \<ge> 48 \<and> (of_char c :: nat) \<le> 57)"

definition digit_val :: "char \<Rightarrow> nat" where
  "digit_val c = of_char c - 48"

fun parse_format :: "pstate \<Rightarrow> string \<Rightarrow> segment list option" where
  "parse_format Text [] = Some []"
| "parse_format Text (c # cs) =
     (if c = CHR ''%'' then parse_format Pct cs
      else prepend [Lit c] (parse_format Text cs))"
| "parse_format Pct [] = None"
| "parse_format Pct (c # cs) =
     (if c = CHR ''%'' then prepend [Lit c] (parse_format Text cs)
      else if c = CHR ''('' then parse_format (Key []) cs
      else if c = CHR ''-'' then parse_format (Spec None True 0) cs
      else if is_digit c then
        (if c = CHR ''0'' then None
         else parse_format (Spec None False (digit_val c)) cs)
      else if c = CHR ''s'' \<or> c = CHR ''d''
        then prepend [Field None False 0 c] (parse_format Text cs)
      else None)"
| "parse_format (Key k) [] = None"
| "parse_format (Key k) (c # cs) =
     (if c = CHR '')'' then parse_format (Spec (Some k) False 0) cs
      else if c = CHR ''('' then None
      else parse_format (Key (k @ [c])) cs)"
| "parse_format (Spec k l w) [] = None"
| "parse_format (Spec k l w) (c # cs) =
     (if c = CHR ''-'' then
        (if w = 0 then parse_format (Spec k True w) cs else None)
      else if is_digit c then
        (if c = CHR ''0'' \<and> w = 0 then None
         else parse_format (Spec k l (10 * w + digit_val c)) cs)
      else if c = CHR ''s'' \<or> c = CHR ''d''
        then prepend [Field k l w c] (parse_format Text cs)
      else None)"

text \<open>One conversion: \<open>%s\<close> takes \<open>str(v)\<close>, \<open>%d\<close> needs a number.\<close>

fun convert :: "char \<Rightarrow> pyval \<Rightarrow> error + string" where
  "convert c (PInt i) = Inr (str_int i)"
| "convert c v = (if c = CHR ''s'' then Inr (py_str v) else Inl TypeError)"

definition pad :: "bool \<Rightarrow> nat \<Rightarrow> string \<Rightarrow> string" where
  "pad l w s = (if l then ljust w s else rjust w s)"

text \<open>A text put in front of the rest's text, unless the rest raised.\<close>

definition before :: "string \<Rightarrow> error + string \<Rightarrow> error + string" where
  "before s rest = (case rest of Inl e \<Rightarrow> Inl e | Inr t \<Rightarrow> Inr (s @ t))"

text \<open>
  \<open>fmt % tuple\<close>, from left to right: every directive takes the next element, a keyed
  directive needs a mapping, and no element may be left over.
\<close>

fun format_tuple :: "segment list \<Rightarrow> pyval list \<Rightarrow> error + string" where
  "format_tuple [] [] = Inr []"
| "format_tuple [] (a # as) = Inl TypeError"
| "format_tuple (Lit c # ss) as = before [c] (format_tuple ss as)"
| "format_tuple (Field (Some k) l w c # ss) as = Inl TypeError"
| "format_tuple (Field None l w c # ss) [] = Inl TypeError"
| "format_tuple (Field None l w c # ss) (a # as) =
     (case convert c a of
        Inl e \<Rightarrow> Inl e
      | Inr s \<Rightarrow> before (pad l w s) (format_tuple ss as))"

text \<open>
  A format whose directives all name a key: only such a format is computed here with
  a mapping as the operand.
\<close>

datatype kseg = KLit char | KField string bool nat char

fun keyed_segments :: "segment list \<Rightarrow> kseg list option" where
  "keyed_segments [] = Some []"
| "keyed_segments (Lit c # ss) = prepend [KLit c] (keyed_segments ss)"
| "keyed_segments (Field None l w c # ss) = None"
| "keyed_segments (Field (Some k) l w c # ss) = prepend [KField k l w c] (keyed_segments ss)"

text \<open>\<open>fmt % mapping\<close>, from left to right: a missing key raises \<open>KeyError\<close>.\<close>

fun format_mapping :: "kseg list \<Rightarrow> (string \<Rightarrow> pyval option) \<Rightarrow> error + string" where
  "format_mapping [] d = Inr []"
| "format_mapping (KLit c # ss) d = before [c] (format_mapping ss d)"
| "format_mapping (KField k l w c # ss) d =
     (case d k of
        None \<Rightarrow> Inl (KeyError k)
      | Some v \<Rightarrow>
          (case convert c v of
             Inl e \<Rightarrow> Inl e
           | Inr s \<Rightarrow> before (pad l w s) (format_mapping ss d)))"

text \<open>The attribute names that a format string refers to, in order of occurrence.\<close>

fun segment_keys :: "segment list \<Rightarrow> string list" where
  "segment_keys [] = []"
| "segment_keys (Lit c # ss) = segment_keys ss"
| "segment_keys (Field None l w c # ss) = segment_keys ss"
| "segment_keys (Field (Some k) l w c # ss) = k # segment_keys ss"

definition format_fields :: "string \<Rightarrow> string list" where
  "format_fields f = (case parse_format Text f of None \<Rightarrow> [] | Some ss \<Rightarrow> segment_keys ss)"

section \<open>Log records and \<open>logging.Formatter\<close>\<close>

text \<open>
  The attributes of a \<open>logging.LogRecord\<close> that the module or the libraries under it
  read or write. \<open>msg\<close> is any object. \<open>message\<close> and \<open>asctime\<close> are set by the
  formatter, \<open>callstack\<close> and \<open>posixTID\<close> by filters; before that the attribute does
  not exist (\<open>None\<close>). \<open>exc_info\<close> is \<open>Some t\<close> for a record that carries exception
  information, \<open>t\<close> being the traceback text that \<open>Formatter.formatException\<close> makes
  of it; \<open>exc_text\<close> and \<open>stack_info\<close> are \<open>None\<close> or a text. \<open>markup\<close> is the
  attribute of that name which a logging call may attach through \<open>extra\<close>.
\<close>

record log_record =
  name :: string
  levelno :: int
  levelname :: string
  msg :: pyval
  args :: pyargs
  funcName :: string
  created :: int
  exc_info :: "string option"
  exc_text :: "string option"
  stack_info :: "string option"
  message :: "string option"
  asctime :: "string option"
  callstack :: "string option"
  posixTID :: "int option"
  markup :: "bool option"

text \<open>
  \<open>record.__dict__\<close> as the operand of \<open>%\<close>, for the attributes in \<open>known_keys\<close>.
\<close>

definition known_keys :: "string list" where
  "known_keys =
     [''name'', ''levelno'', ''levelname'', ''msg'', ''funcName'', ''message'', ''asctime'',
      ''callstack'', ''posixTID'']"

definition record_dict :: "log_record \<Rightarrow> string \<Rightarrow> pyval option" where
  "record_dict r k =
     (if k = ''name'' then Some (PStr (name r))
      else if k = ''levelno'' then Some (PInt (levelno r))
      else if k = ''levelname'' then Some (PStr (levelname r))
      else if k = ''msg'' then Some (msg r)
      else if k = ''funcName'' then Some (PStr (funcName r))
      else if k = ''message'' then map_option PStr (message r)
      else if k = ''asctime'' then map_option PStr (asctime r)
      else if k = ''callstack'' then map_option PStr (callstack r)
      else if k = ''posixTID'' then map_option PInt (posixTID r)
      else None)"

fun known_field :: "kseg \<Rightarrow> bool" where
  "known_field (KLit c) = True"
| "known_field (KField k l w c) = (k \<in> set known_keys)"

text \<open>A text with its style spans (start, end, style), as \<open>rich.text.Text\<close> holds them.\<close>

record rich_text =
  plain :: string
  spans :: "(nat \<times> nat \<times> string) list"

text \<open>
  What the running process and the libraries supply and the model does not compute:
  \<^item> \<open>strftime\<close>: \<open>Formatter.formatTime\<close>, the local time of \<open>created\<close> under \<open>datefmt\<close>;
  \<^item> \<open>fromtimestamp\<close>: the exception, if any, of \<open>datetime.fromtimestamp(created)\<close>;
  \<^item> per emitted record, the emitting thread's native id, the call-stack summary and
    the display form of the logger name;
  \<^item> \<open>percent_beyond\<close> and \<open>format_beyond\<close>: the result of \<open>fmt % args\<close> and of
    \<open>fmt % record.__dict__\<close> for the formats and attributes that \<open>parse_format\<close> and
    \<open>known_keys\<close> leave out;
  \<^item> of rich: \<open>emoji_replace\<close> (emoji codes in plain text), \<open>normalize\<close>
    (\<open>Style.normalize\<close> of a tag name), \<open>highlight\<close> (the spans that the handler's
    highlighter and keyword list add; they leave the text alone), and
    \<open>markup_beyond\<close>, the result of \<open>Text.from_markup\<close> for the markup that
    \<open>from_markup\<close> below leaves out.
\<close>

record runtime =
  strftime :: "string option \<Rightarrow> int \<Rightarrow> error + string"
  fromtimestamp :: "int \<Rightarrow> error option"
  native_id :: "log_record \<Rightarrow> int"
  stack_str :: "log_record \<Rightarrow> string"
  short_name :: "string \<Rightarrow> string"
  percent_beyond :: "string \<Rightarrow> pyargs \<Rightarrow> error + string"
  format_beyond :: "string \<Rightarrow> log_record \<Rightarrow> error + string"
  emoji_replace :: "string \<Rightarrow> string"
  normalize :: "string \<Rightarrow> string"
  highlight :: "log_record \<Rightarrow> string \<Rightarrow> (nat \<times> nat \<times> string) list"
  markup_beyond :: "string \<Rightarrow> error + rich_text"

definition dict_lookup :: "(pyval \<times> pyval) list \<Rightarrow> string \<Rightarrow> pyval option" where
  "dict_lookup kvs k = map_of kvs (PStr k)"

text \<open>\<open>fmt % args\<close> for the \<open>args\<close> of a record.\<close>

definition percent :: "runtime \<Rightarrow> string \<Rightarrow> pyargs \<Rightarrow> error + string" where
  "percent rt f a =
     (case parse_format Text f of
        None \<Rightarrow> percent_beyond rt f a
      | Some ss \<Rightarrow>
          (case a of
             ArgsNone \<Rightarrow> percent_beyond rt f a
           | ArgsTuple xs \<Rightarrow> format_tuple ss xs
           | ArgsDict kvs \<Rightarrow>
               (case keyed_segments ss of
                  None \<Rightarrow> percent_beyond rt f a
                | Some ks \<Rightarrow> format_mapping ks (dict_lookup kvs))))"

text \<open>
  \<open>LogRecord.getMessage\<close>: \<open>str(msg)\<close>, and \<open>msg % args\<close> only when \<open>args\<close> is truthy.
\<close>

definition getMessage :: "runtime \<Rightarrow> log_record \<Rightarrow> error + string" where
  "getMessage rt r =
     (if truthy (args r) then percent rt (py_str (msg r)) (args r)
      else Inr (py_str (msg r)))"

text \<open>
  \<open>PercentStyle.format\<close>: \<open>fmt % record.__dict__\<close>, where a missing attribute is
  reported as \<open>ValueError\<close>.
\<close>

definition format_record :: "runtime \<Rightarrow> string \<Rightarrow> log_record \<Rightarrow> error + string" where
  "format_record rt f r =
     (case parse_format Text f of
        None \<Rightarrow> format_beyond rt f r
      | Some ss \<Rightarrow>
          (case keyed_segments ss of
             None \<Rightarrow> format_beyond rt f r
           | Some ks \<Rightarrow>
               (if list_all known_field ks
                then (case format_mapping ks (record_dict r) of
                        Inl (KeyError k) \<Rightarrow> Inl ValueError
                      | Inl e \<Rightarrow> Inl e
                      | Inr s \<Rightarrow> Inr s)
                else format_beyond rt f r)))"

record formatter =
  fmt :: string
  datefmt :: "string option"

text \<open>\<open>s\<close> followed by \<open>t\<close> on a line of its own.\<close>

definition on_new_line :: "string \<Rightarrow> string \<Rightarrow> string" where
  "on_new_line s t = (if s = [] \<or> last s \<noteq> newline then s @ [newline] else s) @ t"

text \<open>
  \<open>Formatter.format\<close>: it stores \<open>record.message\<close>, stores \<open>record.asctime\<close> when the
  format uses the time, formats the record, caches the traceback text in
  \<open>record.exc_text\<close>, and appends the traceback and the stack text. The record is
  returned as well, since it is mutated.
\<close>

definition format :: "runtime \<Rightarrow> formatter \<Rightarrow> log_record \<Rightarrow> error + (string \<times> log_record)" where
  "format rt f r =
     (case getMessage rt r of
        Inl e \<Rightarrow> Inl e
      | Inr m \<Rightarrow>
          (case (if contains ''%(asctime)'' (fmt f)
                 then (case strftime rt (datefmt f) (created r) of
                         Inl e \<Rightarrow> Inl e
                       | Inr t \<Rightarrow> Inr (r\<lparr>message := Some m, asctime := Some t\<rparr>))
                 else Inr (r\<lparr>message := Some m\<rparr>)) of
             Inl e \<Rightarrow> Inl e
           | Inr r2 \<Rightarrow>
               (case format_record rt (fmt f) r2 of
                  Inl e \<Rightarrow> Inl e
                | Inr s \<Rightarrow>
                    (let r3 = (if exc_info r2 \<noteq> None
                                  \<and> (exc_text r2 = None \<or> exc_text r2 = Some [])
                               then r2\<lparr>exc_text := exc_info r2\<rparr> else r2);
                         s1 = (case exc_text r3 of
                                 None \<Rightarrow> s
                               | Some t \<Rightarrow> if t = [] then s else on_new_line s t);
                         s2 = (case stack_info r3 of
                                 None \<Rightarrow> s1
                               | Some t \<Rightarrow> if t = [] then s1 else on_new_line s1 t)
                     in Inr (s2, r3)))))"

section \<open>The escaping step and the record filters\<close>

text \<open>
  The escaping step of \<open>RichLogHandler.emit\<close>. First (lines 47 to 49)
  \<^verbatim>\<open>record.args = record.args and tuple(markup_escape(arg) if isinstance(arg, str) else arg
                                      for arg in record.args)\<close>:
  Python's \<open>and\<close> returns its left operand when that is falsy, so only truthy \<open>args\<close>
  are iterated. \<open>escape_record\<close> is this assignment.
\<close>

fun escape_arg :: "pyval \<Rightarrow> pyval" where
  "escape_arg (PStr s) = PStr (markup_escape s)"
| "escape_arg v = v"

definition escape_args :: "pyargs \<Rightarrow> error + pyargs" where
  "escape_args a =
     (if truthy a
      then (case iter_args a of
              Inl e \<Rightarrow> Inl e
            | Inr xs \<Rightarrow> Inr (ArgsTuple (map escape_arg xs)))
      else Inr a)"

definition escape_record :: "log_record \<Rightarrow> error + log_record" where
  "escape_record r =
     (case escape_args (args r) of
        Inl e \<Rightarrow> Inl e
      | Inr a \<Rightarrow> Inr (r\<lparr>args := a\<rparr>))"

text \<open>
  Then (line 50) \<^verbatim>\<open>record.msg = markup_escape(record.msg)\<close>, with no check of the type:
  \<open>rich.markup.escape\<close> applies a regular expression to its argument and raises
  \<open>TypeError\<close> for a message that is not a string.
\<close>

fun escape_msg :: "pyval \<Rightarrow> error + pyval" where
  "escape_msg (PStr s) = Inr (PStr (markup_escape s))"
| "escape_msg v = Inl TypeError"

text \<open>The values that iterating \<open>record.args\<close> yields, where it can be iterated.\<close>

fun elements :: "pyargs \<Rightarrow> pyval list" where
  "elements ArgsNone = []"
| "elements (ArgsTuple xs) = xs"
| "elements (ArgsDict kvs) = map fst kvs"

text \<open>
  A record with its string arguments and its message, if that is a string, escaped.
\<close>

definition escaped :: "log_record \<Rightarrow> log_record" where
  "escaped r =
     r\<lparr>args := (if truthy (args r) then ArgsTuple (map escape_arg (elements (args r)))
                else args r),
       msg := escape_arg (msg r)\<rparr>"

text \<open>
  The four filters that \<open>on_mount\<close> installs are imported from
  \<^verbatim>\<open>trickkiste/logging_helper.py\<close>, which is not among the sources.
\<close>

datatype log_filter =
  callstack_filter | thread_id_filter | markup_escape_filter | logger_name_filter

text \<open>
  Modelled from the spec: the bodies of \<open>callstack_filter\<close>, \<open>thread_id_filter\<close>,
  \<open>markup_escape_filter\<close> and \<open>logger_name_filter\<close> of the missing module
  \<^verbatim>\<open>logging_helper\<close>. The spec has the first attach a textual call-stack summary, the
  second attach the current thread's identifier, the third re-escape markup (\<open>escaped\<close>:
  the string arguments and a string message), and the fourth shorten or normalise the
  logger name for display. Each accepts the record (returns true).
\<close>

fun apply_filter :: "runtime \<Rightarrow> log_filter \<Rightarrow> log_record \<Rightarrow> error + (bool \<times> log_record)" where
  "apply_filter rt callstack_filter r = Inr (True, r\<lparr>callstack := Some (stack_str rt r)\<rparr>)"
| "apply_filter rt thread_id_filter r = Inr (True, r\<lparr>posixTID := Some (native_id rt r)\<rparr>)"
| "apply_filter rt markup_escape_filter r = Inr (True, escaped r)"
| "apply_filter rt logger_name_filter r = Inr (True, r\<lparr>name := short_name rt (name r)\<rparr>)"

text \<open>
  \<open>logging.Filterer.filter\<close>: the filters run in list order, each on the record as the
  previous ones left it; the first one that rejects the record ends the chain.
\<close>

fun filter_chain :: "runtime \<Rightarrow> log_filter list \<Rightarrow> log_record \<Rightarrow> error + (bool \<times> log_record)" where
  "filter_chain rt [] r = Inr (True, r)"
| "filter_chain rt (f # fs) r =
     (case apply_filter rt f r of
        Inl e \<Rightarrow> Inl e
      | Inr (ok, r') \<Rightarrow> (if ok then filter_chain rt fs r' else Inr (False, r')))"

section \<open>Console markup: \<open>Text.from_markup\<close>\<close>

text \<open>
  \<open>rich.markup\<close> finds the tags of a text with the regular expression
  \<^verbatim>\<open>((\\*)\[([a-z#/@][^[]*?)])\<close>, the tag grammar of \<open>markup_escape\<close>. Between the
  tags lies plain text. A tag after \<open>n\<close> backslashes gives \<open>n div 2\<close> literal
  backslashes, and is itself literal text when \<open>n\<close> is odd.
\<close>

datatype token = Plain string | TagTok string

datatype tok_mode = Scan string nat | InsideTag bool string

fun tokenize :: "tok_mode \<Rightarrow> string \<Rightarrow> token list" where
  "tokenize (Scan acc n) [] =
     (if acc @ replicate n backslash = [] then [] else [Plain (acc @ replicate n backslash)])"
| "tokenize (InsideTag lit t) [] = []"
| "tokenize (Scan acc n) (c # cs) =
     (if c = backslash then tokenize (Scan acc (Suc n)) cs
      else if is_tag (c # cs) then
        (if acc = [] then [] else [Plain acc])
        @ (if n div 2 = 0 then [] else [Plain (replicate (n div 2) backslash)])
        @ tokenize (InsideTag (odd n) []) cs
      else tokenize (Scan (acc @ replicate n backslash @ [c]) 0) cs)"
| "tokenize (InsideTag lit t) (c # cs) =
     (if c = CHR '']''
      then (if lit then Plain (CHR ''['' # t @ '']'') else TagTok t) # tokenize (Scan [] 0) cs
      else tokenize (InsideTag lit (t @ [c])) cs)"

text \<open>\<open>tag_text.partition("=")\<close>: the name of a tag and its parameters, if any.\<close>

definition tag_name :: "string \<Rightarrow> string" where
  "tag_name t = takeWhile (\<lambda>c. c \<noteq> CHR ''='') t"

definition tag_parameters :: "string \<Rightarrow> string option" where
  "tag_parameters t =
     (if CHR ''='' \<in> set t then Some (tl (dropWhile (\<lambda>c. c \<noteq> CHR ''='') t)) else None)"

text \<open>\<open>str(tag)\<close> of a tag with the given name and parameters.\<close>

fun str_tag :: "string \<times> string option \<Rightarrow> string" where
  "str_tag (n, None) = n"
| "str_tag (n, Some p) = n @ '' '' @ p"

text \<open>\<open>plain_text.replace("\\[", "[")\<close>.\<close>

fun unescape_brackets :: "string \<Rightarrow> string" where
  "unescape_brackets (c # d # cs) =
     (if c = backslash \<and> d = CHR ''['' then d # unescape_brackets cs
      else c # unescape_brackets (d # cs))"
| "unescape_brackets cs = cs"

text \<open>
  \<open>rich.control.strip_control_codes\<close>, which \<open>Text\<close> applies to every string it takes
  in: bell, backspace, vertical tab, form feed and carriage return are dropped.
\<close>

definition strip_control_codes :: "string \<Rightarrow> string" where
  "strip_control_codes s =
     filter (\<lambda>c. (of_char c :: nat) \<notin> {7, 8, 11, 12, 13}) s"

text \<open>
  The tags that are not computed here: a tag whose name starts with \<open>@\<close> (its
  parameters are evaluated as a Python literal), and a closing tag whose name does not
  begin and end with a printable ASCII character other than the blank (\<open>str.strip\<close>
  could change it).
\<close>

definition graphic :: "char \<Rightarrow> bool" where
  "graphic c = ((of_char c :: nat) \<ge> 33 \<and> (of_char c :: nat) \<le> 126)"

fun beyond_token :: "token \<Rightarrow> bool" where
  "beyond_token (Plain s) = False"
| "beyond_token (TagTok t) =
     (case tag_name t of
        [] \<Rightarrow> True
      | c # n \<Rightarrow>
          c = CHR ''@''
          \<or> (c = CHR ''/'' \<and> n \<noteq> [] \<and> (\<not> graphic (hd n) \<or> \<not> graphic (last n))))"

text \<open>
  The state of \<open>rich.markup.render\<close>: the text so far, the stack of open tags (the top
  first) with the text length at which each was opened, and the spans closed so far.
\<close>

record mstate =
  m_text :: string
  m_stack :: "(nat \<times> string \<times> string option) list"
  m_spans :: "(nat \<times> nat \<times> string) list"

text \<open>\<open>pop_style\<close>: the topmost open tag of the given name leaves the stack.\<close>

fun pop_style ::
  "string \<Rightarrow> (nat \<times> string \<times> string option) list
   \<Rightarrow> ((nat \<times> string \<times> string option) \<times> (nat \<times> string \<times> string option) list) option" where
  "pop_style n [] = None"
| "pop_style n (e # es) =
     (if fst (snd e) = n then Some (e, es)
      else (case pop_style n es of None \<Rightarrow> None | Some (x, rest) \<Rightarrow> Some (x, e # rest)))"

definition close_span :: "mstate \<Rightarrow> (nat \<times> string \<times> string option) \<Rightarrow> (nat \<times> nat \<times> string)" where
  "close_span st e = (fst e, py_len (m_text st), str_tag (snd e))"

text \<open>
  The loop of \<open>rich.markup.render\<close> over the text and the tags: plain text is appended
  (brackets unescaped, emoji codes replaced), an opening tag is pushed, a closing tag
  pops the tag it names (or the top one, for \<open>[/]\<close>) and raises \<open>MarkupError\<close> when
  there is none.
\<close>

fun render_tokens :: "runtime \<Rightarrow> token list \<Rightarrow> mstate \<Rightarrow> error + mstate" where
  "render_tokens rt [] st = Inr st"
| "render_tokens rt (Plain s # ts) st =
     render_tokens rt ts
       (st\<lparr>m_text := m_text st
              @ strip_control_codes (emoji_replace rt (unescape_brackets s))\<rparr>)"
| "render_tokens rt (TagTok t # ts) st =
     (if starts_with ''/'' (tag_name t) then
        (if tl (tag_name t) \<noteq> [] then
           (case pop_style (normalize rt (tl (tag_name t))) (m_stack st) of
              None \<Rightarrow> Inl MarkupError
            | Some (e, rest) \<Rightarrow>
                render_tokens rt ts
                  (st\<lparr>m_stack := rest, m_spans := m_spans st @ [close_span st e]\<rparr>))
         else
           (case m_stack st of
              [] \<Rightarrow> Inl MarkupError
            | e # rest \<Rightarrow>
                render_tokens rt ts
                  (st\<lparr>m_stack := rest, m_spans := m_spans st @ [close_span st e]\<rparr>)))
      else
        render_tokens rt ts
          (st\<lparr>m_stack := (py_len (m_text st), normalize rt (tag_name t), tag_parameters t)
                          # m_stack st\<rparr>))"

text \<open>
  After the loop the tags still open are closed at the end of the text, the top one
  first, unless their style is empty; the spans are reversed and sorted by their
  start, stably.
\<close>

definition finish_spans :: "mstate \<Rightarrow> (nat \<times> nat \<times> string) list" where
  "finish_spans st =
     sort_key fst
       (rev (m_spans st
             @ filter (\<lambda>sp. snd (snd sp) \<noteq> []) (map (close_span st) (m_stack st))))"

definition from_markup :: "runtime \<Rightarrow> string \<Rightarrow> error + rich_text" where
  "from_markup rt text =
     (if CHR ''['' \<notin> set text
      then Inr \<lparr>plain = strip_control_codes (emoji_replace rt text), spans = []\<rparr>
      else if list_ex beyond_token (tokenize (Scan [] 0) text) then markup_beyond rt text
      else (case render_tokens rt (tokenize (Scan [] 0) text)
                   \<lparr>m_text = [], m_stack = [], m_spans = []\<rparr> of
              Inl e \<Rightarrow> Inl e
            | Inr st \<Rightarrow> Inr \<lparr>plain = m_text st, spans = finish_spans st\<rparr>))"

section \<open>The scrollback widget \<open>LockingRichLog\<close>\<close>

text \<open>
  What the handler appends to the widget is the grid that \<open>RichHandler.render\<close>
  builds. The handler is constructed with \<open>show_time=False\<close> and \<open>show_path=False\<close>
  and leaves \<open>show_level\<close> at its default, true: the grid has one row of two cells,
  the level column of width 8 and the message.
\<close>

record renderable =
  level_text :: string
  message_text :: rich_text

text \<open>
  The characters of such an entry as the grid lays them out, when the level name has
  at most eight characters and the entry fits in one row: the level column, one blank
  of padding, the message.
\<close>

definition line_text :: "renderable \<Rightarrow> string" where
  "line_text content = level_text content @ '' '' @ plain (message_text content)"

record locking_rich_log =
  widget_id :: string
  lines :: "renderable list"
  auto_scroll :: bool
  scroll_y :: int
  max_scroll_y :: int

text \<open>\<open>RichLog.write\<close> appends one entry to the scrollback.\<close>

definition RichLog_write :: "locking_rich_log \<Rightarrow> renderable \<Rightarrow> locking_rich_log" where
  "RichLog_write self content = self\<lparr>lines := lines self @ [content]\<rparr>"






section \<open>The handler \<open>RichLogHandler\<close> and the logging state\<close>

record rich_log_handler =
  widget :: nat
  level :: int
  filters :: "log_filter list"
  formatter :: "formatter option"

datatype level = LevelNo int | LevelName string

datatype level_spec = Overall level | ForLogger string level

text \<open>
  Handlers and widgets are objects that several places refer to (the root logger's
  handler list and the local variable \<open>handler\<close>; the application's \<open>_richlog\<close> and the
  handler's \<open>widget\<close>), so they live in a store, addressed by reference. \<open>root_handlers\<close>
  is \<open>logging.getLogger().handlers\<close>.
\<close>

record world =
  widget_objs :: "nat \<Rightarrow> locking_rich_log"
  handler_objs :: "nat \<Rightarrow> rich_log_handler"
  root_handlers :: "nat list"
  next_ref :: nat
  level_specs :: "level_spec list"
  others_level :: level

definition INFO :: int where "INFO = 20"

definition WARNING :: int where "WARNING = 30"

text \<open>
  \<open>RichLogHandler.__init__\<close> (lines 42 to 44): a new handler with the given level, no
  filters and no formatter, writing to \<open>widget\<close>. The options that it passes on to
  \<open>RichHandler\<close> (\<open>markup=True\<close>, \<open>show_time=False\<close>, \<open>show_path=False\<close>) are the same
  for every handler and are built into \<open>render_message\<close> and \<open>render\<close> below.
\<close>

definition RichLogHandler_init :: "nat \<Rightarrow> int \<Rightarrow> world \<Rightarrow> nat \<times> world" where
  "RichLogHandler_init w_ref lvl w =
     (next_ref w,
      w\<lparr>handler_objs := (handler_objs w)
           (next_ref w := \<lparr>widget = w_ref, level = lvl, filters = [], formatter = None\<rparr>),
        next_ref := Suc (next_ref w)\<rparr>)"

text \<open>\<open>Filterer.addFilter\<close>: append unless already present.\<close>

definition addFilter :: "nat \<Rightarrow> log_filter \<Rightarrow> world \<Rightarrow> world" where
  "addFilter self f w =
     (let h = handler_objs w self
      in w\<lparr>handler_objs := (handler_objs w)
             (self := h\<lparr>filters := (if f \<in> set (filters h) then filters h
                                      else filters h @ [f])\<rparr>)\<rparr>)"

definition setFormatter :: "nat \<Rightarrow> formatter \<Rightarrow> world \<Rightarrow> world" where
  "setFormatter self f w =
     (let h = handler_objs w self
      in w\<lparr>handler_objs := (handler_objs w)(self := h\<lparr>formatter := Some f\<rparr>)\<rparr>)"

text \<open>\<open>logging\<close>'s formatter of last resort, used by a handler without a formatter.\<close>

definition defaultFormatter :: formatter where
  "defaultFormatter = \<lparr>fmt = ''%(message)s'', datefmt = None\<rparr>"

text \<open>
  \<open>RichHandler.render_message\<close> with \<open>markup=True\<close>: the text is parsed as console
  markup unless the record's own \<open>markup\<close> attribute says otherwise; the highlighter
  and the keyword list add their spans.
\<close>

definition render_message :: "runtime \<Rightarrow> log_record \<Rightarrow> string \<Rightarrow> error + rich_text" where
  "render_message rt r text =
     (case (if (case markup r of None \<Rightarrow> True | Some b \<Rightarrow> b)
            then from_markup rt text
            else Inr \<lparr>plain = strip_control_codes text, spans = []\<rparr>) of
        Inl e \<Rightarrow> Inl e
      | Inr t \<Rightarrow> Inr (t\<lparr>spans := spans t @ highlight rt r (plain t)\<rparr>))"

text \<open>
  \<open>RichHandler.render\<close> with \<open>show_time=False\<close>, \<open>show_path=False\<close> and no traceback:
  the level text is \<open>record.levelname.ljust(8)\<close>; the log time is computed although
  it is not shown.
\<close>

definition render :: "runtime \<Rightarrow> log_record \<Rightarrow> rich_text \<Rightarrow> error + renderable" where
  "render rt r message_renderable =
     (case fromtimestamp rt (created r) of
        Some e \<Rightarrow> Inl e
      | None \<Rightarrow>
          Inr \<lparr>level_text = strip_control_codes (ljust 8 (levelname r)),
               message_text = message_renderable\<rparr>)"

text \<open>
  \<open>RichLogHandler.emit\<close> (lines 46 to 57), in two parts. \<open>emit_entry\<close> is everything up
  to the call of \<open>self.widget.write\<close>: the escaping of \<open>args\<close> and \<open>msg\<close>, then
  \<open>self.format(record)\<close>, \<open>self.render_message\<close> and \<open>self.render\<close>, in the order in
  which Python evaluates the arguments. It gives the entry to be written and
  the record as it has been mutated, or the exception of the first step that raises.
\<close>

definition emit_entry ::
  "runtime \<Rightarrow> rich_log_handler \<Rightarrow> log_record \<Rightarrow> error + (log_record \<times> renderable)" where
  "emit_entry rt h r =
     (case escape_record r of
        Inl e \<Rightarrow> Inl e
      | Inr r1 \<Rightarrow>
          (case escape_msg (msg r1) of
             Inl e \<Rightarrow> Inl e
           | Inr m \<Rightarrow>
               (case format rt (case formatter h of None \<Rightarrow> defaultFormatter | Some f \<Rightarrow> f)
                       (r1\<lparr>msg := m\<rparr>) of
                  Inl e \<Rightarrow> Inl e
                | Inr (text, r2) \<Rightarrow>
                    (case render_message rt r2 text of
                       Inl e \<Rightarrow> Inl e
                     | Inr message_renderable \<Rightarrow>
                         (case render rt r2 message_renderable of
                            Inl e \<Rightarrow> Inl e
                          | Inr content \<Rightarrow> Inr (r2, content))))))"

text \<open>
  \<open>emit\<close> writes that entry to the handler's widget. An exception of an earlier step
  leaves the widget as it was.
\<close>

definition emit :: "runtime \<Rightarrow> nat \<Rightarrow> log_record \<Rightarrow> world \<Rightarrow> error + (log_record \<times> world)" where
  "emit rt self r w =
     (let h = handler_objs w self
      in case emit_entry rt h r of
           Inl e \<Rightarrow> Inl e
         | Inr (r', content) \<Rightarrow>
             Inr (r', w\<lparr>widget_objs := (widget_objs w)
                         (widget h := RichLog_write (widget_objs w (widget h)) content)\<rparr>))"

text \<open>
  \<open>logging.Handler.handle\<close>: the handler's filters first, then \<open>emit\<close> for a record
  that they accept.
\<close>

definition handle :: "runtime \<Rightarrow> nat \<Rightarrow> log_record \<Rightarrow> world \<Rightarrow> error + (log_record \<times> world)" where
  "handle rt self r w =
     (case filter_chain rt (filters (handler_objs w self)) r of
        Inl e \<Rightarrow> Inl e
      | Inr (ok, r') \<Rightarrow> (if ok then emit rt self r' w else Inr (r', w)))"

text \<open>
  Records emitted one after the other, each in a logging call of its own: a call whose
  handling raises hands the exception to its caller and leaves the state as it was.
\<close>

fun handle_each :: "runtime \<Rightarrow> nat \<Rightarrow> log_record list \<Rightarrow> world \<Rightarrow> world" where
  "handle_each rt self [] w = w"
| "handle_each rt self (r # rs) w =
     (case handle rt self r w of
        Inl e \<Rightarrow> handle_each rt self rs w
      | Inr (r', w') \<Rightarrow> handle_each rt self rs w')"




section \<open>The application shell \<open>TuiBaseApp\<close>\<close>

text \<open>
  The attributes set by \<open>__init__\<close> (lines 74 to 92), without the leading underscore.
  \<open>richlog\<close> refers to the widget in the store. \<open>initialize\<close> and \<open>cleanup\<close> are the
  optional methods of a concrete subclass (\<open>hasattr(self, "initialize")\<close>): \<open>None\<close>
  when the subclass does not define them.
\<close>

record tui_base_app =
  richlog :: nat
  logger_show_level :: bool
  logger_show_time :: bool
  logger_show_name :: bool
  logger_show_callstack :: bool
  logger_show_funcname :: bool
  logger_show_tid :: bool
  log_level :: "level_spec list"
  footer_label :: string
  initialize :: "(world \<Rightarrow> world) option"
  cleanup :: "(world \<Rightarrow> world) option"

definition TuiBaseApp_init ::
  "bool \<Rightarrow> bool \<Rightarrow> bool \<Rightarrow> bool \<Rightarrow> bool \<Rightarrow> bool \<Rightarrow>
   (world \<Rightarrow> world) option \<Rightarrow> (world \<Rightarrow> world) option \<Rightarrow> world \<Rightarrow> tui_base_app \<times> world" where
  "TuiBaseApp_init show_level show_time show_name show_callstack show_funcname show_tid
     initialize_hook cleanup_hook w =
     (\<lparr>richlog = next_ref w,
       logger_show_level = show_level,
       logger_show_time = show_time,
       logger_show_name = show_name,
       logger_show_callstack = show_callstack,
       logger_show_funcname = show_funcname,
       logger_show_tid = show_tid,
       log_level = [Overall (LevelNo INFO)],
       footer_label = ''nonsense'',
       initialize = initialize_hook,
       cleanup = cleanup_hook\<rparr>,
      w\<lparr>widget_objs := (widget_objs w)
           (next_ref w := \<lparr>widget_id = ''app_log'', lines = [], auto_scroll = True,
                           scroll_y = 0, max_scroll_y = 0\<rparr>),
        next_ref := Suc (next_ref w)\<rparr>)"

text \<open>
  Modelled from the spec: \<open>set_log_levels\<close> of the missing module
  \<^verbatim>\<open>logging_helper\<close>. The spec has it set the minimum severity shown in the log pane,
  with a separate default threshold for all other loggers; the model records both
  and leaves handlers and widgets alone.
\<close>

definition logging_helper_set_log_levels :: "level_spec list \<Rightarrow> level \<Rightarrow> world \<Rightarrow> world" where
  "logging_helper_set_log_levels levels others w = w\<lparr>level_specs := levels, others_level := others\<rparr>"

text \<open>\<open>TuiBaseApp.set_log_levels\<close> (lines 142 to 147).\<close>

definition set_log_levels ::
  "tui_base_app \<Rightarrow> level_spec list \<Rightarrow> level \<Rightarrow> world \<Rightarrow> tui_base_app \<times> world" where
  "set_log_levels self levels others w =
     (self\<lparr>log_level := levels\<rparr>, logging_helper_set_log_levels levels others w)"

text \<open>\<open>TuiBaseApp.update_status_bar\<close> (lines 132 to 134).\<close>

definition update_status_bar :: "tui_base_app \<Rightarrow> string \<Rightarrow> tui_base_app" where
  "update_status_bar self text = self\<lparr>footer_label := text\<rparr>"

text \<open>
  The format string that \<open>on_mount\<close> hands to \<open>logging.Formatter\<close> (lines 107 to 122):
  three adjacent literals, the middle one an f-string of the five optional parts.
\<close>

definition log_format :: "tui_base_app \<Rightarrow> string" where
  "log_format self =
     (let opt_time = (if logger_show_time self then bar @ '' %(asctime)s '' else []);
          opt_name = (if logger_show_name self then bar @ '' [grey53]%(name)-16s[/] '' else []);
          opt_funcname =
            (if logger_show_funcname self then bar @ '' [grey53]%(funcName)-32s[/] '' else []);
          opt_callstack =
            (if logger_show_callstack self then bar @ '' [grey53]%(callstack)-32s[/] '' else []);
          opt_tid = (if logger_show_tid self then bar @ '' [grey53]%(posixTID)-8s[/] '' else [])
      in bar @ '' %(asctime)s''
         @ opt_time @ opt_tid @ opt_name @ opt_funcname @ opt_callstack
         @ bar @ '' [bold white]%(message)s[/]'')"

text \<open>
  \<open>TuiBaseApp.on_mount\<close> (lines 103 to 130). The handler list of the root logger is
  replaced by a list holding the new handler; the handler is configured afterwards,
  through the same reference.
\<close>

definition on_mount :: "tui_base_app \<Rightarrow> world \<Rightarrow> tui_base_app \<times> world" where
  "on_mount self w0 =
     (let (handler, w1) = RichLogHandler_init (richlog self) INFO w0;
          w2 = w1\<lparr>root_handlers := [handler]\<rparr>;
          w3 = (if logger_show_callstack self then addFilter handler callstack_filter w2 else w2);
          w4 = (if logger_show_tid self then addFilter handler thread_id_filter w3 else w3);
          w5 = addFilter handler markup_escape_filter w4;
          w6 = addFilter handler logger_name_filter w5;
          w7 = setFormatter handler
                 \<lparr>fmt = log_format self, datefmt = Some ''%Y-%m-%d %H:%M:%S''\<rparr> w6;
          (self', w8) = set_log_levels self (log_level self) (LevelNo WARNING) w7
      in case initialize self of
           None \<Rightarrow> (self', w8)
         | Some hook \<Rightarrow> (self', hook w8))"

text \<open>
  \<open>TuiBaseApp.execute\<close> (lines 136 to 140). \<open>run_async\<close> stands for
  \<open>asyncio.run(self.run_async())\<close>, the event loop of the framework: it returns the
  state at which the loop ended, or raises. The first component lists the calls that
  \<open>execute\<close> makes, in order.
\<close>

datatype call = Call_run_async | Call_cleanup

definition execute ::
  "tui_base_app \<Rightarrow> (world \<Rightarrow> error + world) \<Rightarrow> world \<Rightarrow> call list \<times> (error + world)" where
  "execute self run_async w =
     (case run_async w of
        Inl e \<Rightarrow> ([Call_run_async], Inl e)
      | Inr w1 \<Rightarrow>
          (case cleanup self of
             None \<Rightarrow> ([Call_run_async], Inr w1)
           | Some hook \<Rightarrow> ([Call_run_async, Call_cleanup], Inr (hook w1))))"

section \<open>Notions used to state the properties\<close>

text \<open>
  A subclass's \<open>initialize\<close> hook is code outside this module. The properties of the
  mounted logging setup are stated for a hook (if any) that does not itself reconfigure
  logging: it leaves the root logger's handler list and the handler objects alone.
\<close>

definition hook_keeps_logging :: "(world \<Rightarrow> world) option \<Rightarrow> bool" where
  "hook_keeps_logging hook =
     (case hook of
        None \<Rightarrow> True
      | Some f \<Rightarrow>
          (\<forall>w. root_handlers (f w) = root_handlers w \<and> handler_objs (f w) = handler_objs w))"

text \<open>The filter list, the formatter and the handler that \<open>on_mount\<close> is to leave behind.\<close>

definition mounted_filters :: "tui_base_app \<Rightarrow> log_filter list" where
  "mounted_filters app =
     (if logger_show_callstack app then [callstack_filter] else [])
     @ (if logger_show_tid app then [thread_id_filter] else [])
     @ [markup_escape_filter, logger_name_filter]"

definition mounted_formatter :: "tui_base_app \<Rightarrow> formatter" where
  "mounted_formatter app = \<lparr>fmt = log_format app, datefmt = Some ''%Y-%m-%d %H:%M:%S''\<rparr>"

definition mounted_handler :: "tui_base_app \<Rightarrow> rich_log_handler" where
  "mounted_handler app =
     \<lparr>widget = richlog app, level = INFO, filters = mounted_filters app,
      formatter = Some (mounted_formatter app)\<rparr>"

text \<open>The parsed form of \<open>log_format\<close>, part by part.\<close>

definition lits :: "string \<Rightarrow> segment list" where
  "lits s = map Lit s"

definition field_s :: "string \<Rightarrow> segment" where
  "field_s k = Field (Some k) False 0 CHR ''s''"

definition field_ljust :: "string \<Rightarrow> nat \<Rightarrow> segment" where
  "field_ljust k w = Field (Some k) True w CHR ''s''"

definition log_segments :: "tui_base_app \<Rightarrow> segment list" where
  "log_segments self =
     (lits (bar @ '' '') @ [field_s ''asctime''])
     @ (if logger_show_time self
        then lits (bar @ '' '') @ [field_s ''asctime''] @ lits '' '' else [])
     @ (if logger_show_tid self
        then lits (bar @ '' [grey53]'') @ [field_ljust ''posixTID'' 8] @ lits ''[/] '' else [])
     @ (if logger_show_name self
        then lits (bar @ '' [grey53]'') @ [field_ljust ''name'' 16] @ lits ''[/] '' else [])
     @ (if logger_show_funcname self
        then lits (bar @ '' [grey53]'') @ [field_ljust ''funcName'' 32] @ lits ''[/] '' else [])
     @ (if logger_show_callstack self
        then lits (bar @ '' [grey53]'') @ [field_ljust ''callstack'' 32] @ lits ''[/] '' else [])
     @ (lits (bar @ '' [bold white]'') @ [field_s ''message''] @ lits ''[/]'')"

text \<open>The attribute names of \<open>log_format\<close>, in order.\<close>

definition log_fields :: "tui_base_app \<Rightarrow> string list" where
  "log_fields self =
     [''asctime'']
     @ (if logger_show_time self then [''asctime''] else [])
     @ (if logger_show_tid self then [''posixTID''] else [])
     @ (if logger_show_name self then [''name''] else [])
     @ (if logger_show_funcname self then [''funcName''] else [])
     @ (if logger_show_callstack self then [''callstack''] else [])
     @ [''message'']"

text \<open>
  The record after the mounted filters, one after the other in the order of
  \<open>mounted_filters\<close>: call stack, thread id, escaping, logger name.
\<close>

definition filtered :: "runtime \<Rightarrow> tui_base_app \<Rightarrow> log_record \<Rightarrow> log_record" where
  "filtered rt app r =
     (let r1 = (if logger_show_callstack app then r\<lparr>callstack := Some (stack_str rt r)\<rparr> else r);
          r2 = (if logger_show_tid app then r1\<lparr>posixTID := Some (native_id rt r1)\<rparr> else r1);
          r3 = escaped r2
      in r3\<lparr>name := short_name rt (name r3)\<rparr>)"

text \<open>
  What handling a record under the mounted handler comes to: the entry that \<open>emit\<close>
  makes of the filtered record, with the record as mutated, or the exception raised.
\<close>

definition mounted_entry ::
  "runtime \<Rightarrow> tui_base_app \<Rightarrow> log_record \<Rightarrow> error + (log_record \<times> renderable)" where
  "mounted_entry rt app r = emit_entry rt (mounted_handler app) (filtered rt app r)"

text \<open>The entry, if any, that a handled record adds to the scrollback.\<close>

definition appended :: "runtime \<Rightarrow> tui_base_app \<Rightarrow> log_record \<Rightarrow> renderable option" where
  "appended rt app r =
     (case mounted_entry rt app r of Inl e \<Rightarrow> None | Inr (q, content) \<Rightarrow> Some content)"


text \<open>
  A text without an opening bracket and without a backslash holds no markup. The
  message of a plain record is such a text; a plain record has no arguments, no
  exception or stack information and no \<open>markup\<close> attribute, and the process gives
  it a time stamp of that kind.
\<close>

definition no_markup :: "string \<Rightarrow> bool" where
  "no_markup s = (CHR ''['' \<notin> set s \<and> backslash \<notin> set s)"



text \<open>
  A list of tokens that \<open>from_markup\<close> computes and renders without raising, whatever
  tags are open before it.
\<close>

definition renders :: "runtime \<Rightarrow> token list \<Rightarrow> bool" where
  "renders rt ts =
     (\<not> list_ex beyond_token ts \<and> (\<forall>st. \<exists>st'. render_tokens rt ts st = Inr st'))"


text \<open>The five toggles that the format string depends on are all off.\<close>

definition toggles_off :: "tui_base_app \<Rightarrow> bool" where
  "toggles_off app =
     (\<not> logger_show_time app \<and> \<not> logger_show_tid app \<and> \<not> logger_show_name app
      \<and> \<not> logger_show_funcname app \<and> \<not> logger_show_callstack app)"

text \<open>
  A piece of text as \<open>rich.markup.render\<close> appends it: emoji codes replaced, control
  codes stripped. No piece is appended for an empty message.
\<close>

definition shown :: "runtime \<Rightarrow> string \<Rightarrow> string" where
  "shown rt s = (if s = [] then [] else strip_control_codes (emoji_replace rt s))"

subsection \<open>Concrete inputs\<close>

text \<open>
  A state in which the root logger already has two handlers; a process with a fixed
  clock, in which texts hold no emoji codes and style names are in normal form; and an
  INFO record without arguments.
\<close>

definition example_world :: world where
  "example_world =
     \<lparr>widget_objs = (\<lambda>_. \<lparr>widget_id = [], lines = [], auto_scroll = True,
                            scroll_y = 0, max_scroll_y = 0\<rparr>),
      handler_objs = (\<lambda>_. \<lparr>widget = 0, level = 0, filters = [], formatter = None\<rparr>),
      root_handlers = [3, 4],
      next_ref = 5,
      level_specs = [],
      others_level = LevelNo 0\<rparr>"

definition example_runtime :: runtime where
  "example_runtime =
     \<lparr>strftime = (\<lambda>_ _. Inr ''2024-01-01 12:00:00''),
      fromtimestamp = (\<lambda>_. None),
      native_id = (\<lambda>_. 4711),
      stack_str = (\<lambda>_. ''main''),
      short_name = (\<lambda>n. n),
      percent_beyond = (\<lambda>_ _. Inl (OtherError ''NotComputed'')),
      format_beyond = (\<lambda>_ _. Inl (OtherError ''NotComputed'')),
      emoji_replace = (\<lambda>s. s),
      normalize = (\<lambda>s. s),
      highlight = (\<lambda>_ _. []),
      markup_beyond = (\<lambda>_. Inl (OtherError ''NotComputed''))\<rparr>"

definition example_record :: log_record where
  "example_record =
     \<lparr>name = ''trickkiste.base_app'', levelno = 20, levelname = ''INFO'', msg = PStr ''hello'',
      args = ArgsNone, funcName = ''run'', created = 0, exc_info = None, exc_text = None,
      stack_info = None, message = None, asctime = None, callstack = None, posixTID = None,
      markup = None\<rparr>"

text \<open>The application constructed with every toggle off, and with every toggle on.\<close>

definition plain_app :: "world \<Rightarrow> tui_base_app \<times> world" where
  "plain_app w = TuiBaseApp_init False False False False False False None None w"

definition full_app :: "world \<Rightarrow> tui_base_app \<times> world" where
  "full_app w = TuiBaseApp_init True True True True True True None None w"

text \<open>The state after constructing and mounting an application in \<open>example_world\<close>.\<close>

definition mounted :: "tui_base_app \<times> world \<Rightarrow> world" where
  "mounted aw = snd (on_mount (fst aw) (snd aw))"

section \<open>Auxiliary facts\<close>

subsection \<open>The escaping step\<close>

lemma escape_args_eq:
  "escape_args a = Inr (if truthy a then ArgsTuple (map escape_arg (elements a)) else a)"
  by (cases a) (simp_all add: escape_args_def)

lemma escape_record_eq:
  "escape_record r =
     Inr (r\<lparr>args := (if truthy (args r) then ArgsTuple (map escape_arg (elements (args r)))
                     else args r)\<rparr>)"
  by (simp add: escape_record_def escape_args_eq)

lemma escape_msg_eq:
  "escape_msg v = (case v of PStr s \<Rightarrow> Inr (escape_arg v) | _ \<Rightarrow> Inl TypeError)"
  by (cases v) simp_all

lemma escaped_fields:
  "callstack (escaped r) = callstack r"
  "posixTID (escaped r) = posixTID r"
  "name (escaped r) = name r"
  "levelno (escaped r) = levelno r"
  "levelname (escaped r) = levelname r"
  "funcName (escaped r) = funcName r"
  "created (escaped r) = created r"
  "message (escaped r) = message r"
  "asctime (escaped r) = asctime r"
  "exc_info (escaped r) = exc_info r"
  "exc_text (escaped r) = exc_text r"
  "stack_info (escaped r) = stack_info r"
  "markup (escaped r) = markup r"
  "msg (escaped r) = escape_arg (msg r)"
  by (simp_all add: escaped_def)

lemma escaped_falsy_args: "\<not> truthy (args r) \<Longrightarrow> args (escaped r) = args r"
  by (simp add: escaped_def)

text \<open>The two escaping assignments of \<open>emit\<close> together, for a message that is a string.\<close>

lemma escape_steps:
  "(case escape_record r of
      Inl e \<Rightarrow> Inl e
    | Inr r1 \<Rightarrow> (case escape_msg (msg r1) of Inl e \<Rightarrow> Inl e | Inr m \<Rightarrow> F (r1\<lparr>msg := m\<rparr>)))
   = (case msg r of PStr s \<Rightarrow> F (escaped r) | PInt i \<Rightarrow> Inl TypeError | PNone \<Rightarrow> Inl TypeError)"
  by (cases "msg r") (simp_all add: escape_record_eq escaped_def)

lemma emit_entry_eq:
  "emit_entry rt h r =
     (case msg r of
        PStr s \<Rightarrow>
          (case format rt (case formatter h of None \<Rightarrow> defaultFormatter | Some f \<Rightarrow> f)
                  (escaped r) of
             Inl e \<Rightarrow> Inl e
           | Inr (text, r2) \<Rightarrow>
               (case render_message rt r2 text of
                  Inl e \<Rightarrow> Inl e
                | Inr message_renderable \<Rightarrow>
                    (case render rt r2 message_renderable of
                       Inl e \<Rightarrow> Inl e
                     | Inr content \<Rightarrow> Inr (r2, content))))
      | PInt i \<Rightarrow> Inl TypeError
      | PNone \<Rightarrow> Inl TypeError)"
  unfolding emit_entry_def by (rule escape_steps)

subsection \<open>Parsing the format string of \<open>on_mount\<close>\<close>

lemma prepend_simps [simp]:
  "prepend xs None = None"
  "prepend xs (Some ys) = Some (xs @ ys)"
  "prepend [] v = v"
  by (cases v; simp add: prepend_def)+

lemma prepend_prepend [simp]: "prepend xs (prepend ys v) = prepend (xs @ ys) v"
  by (cases v) simp_all

text \<open>A format that parses on its own parses the same way in front of any other text.\<close>

lemma parse_format_append:
  "parse_format st c = Some ss \<Longrightarrow>
   parse_format st (c @ rest) = prepend ss (parse_format Text rest)"
proof (induction st c arbitrary: ss rule: parse_format.induct)
  case (2 c cs)
  then show ?case
    by (cases "parse_format Text cs") (auto split: if_splits)
next
  case (4 c cs)
  then show ?case
    by (cases "parse_format Text cs") (auto split: if_splits)
next
  case (6 k c cs)
  then show ?case by (auto split: if_splits)
next
  case (8 k l w c cs)
  then show ?case
    by (cases "parse_format Text cs") (auto split: if_splits)
qed simp_all

lemmas parse_eval = bar_def lits_def field_s_def field_ljust_def is_digit_def digit_val_def

lemma parse_head:
  "parse_format Text (bar @ '' %(asctime)s'') = Some (lits (bar @ '' '') @ [field_s ''asctime''])"
  by (simp add: parse_eval)

lemma parse_time:
  "parse_format Text (bar @ '' %(asctime)s '')
   = Some (lits (bar @ '' '') @ [field_s ''asctime''] @ lits '' '')"
  by (simp add: parse_eval)

lemma parse_tid:
  "parse_format Text (bar @ '' [grey53]%(posixTID)-8s[/] '')
   = Some (lits (bar @ '' [grey53]'') @ [field_ljust ''posixTID'' 8] @ lits ''[/] '')"
  by (simp add: parse_eval)

lemma parse_name:
  "parse_format Text (bar @ '' [grey53]%(name)-16s[/] '')
   = Some (lits (bar @ '' [grey53]'') @ [field_ljust ''name'' 16] @ lits ''[/] '')"
  by (simp add: parse_eval)

lemma parse_funcname:
  "parse_format Text (bar @ '' [grey53]%(funcName)-32s[/] '')
   = Some (lits (bar @ '' [grey53]'') @ [field_ljust ''funcName'' 32] @ lits ''[/] '')"
  by (simp add: parse_eval)

lemma parse_callstack:
  "parse_format Text (bar @ '' [grey53]%(callstack)-32s[/] '')
   = Some (lits (bar @ '' [grey53]'') @ [field_ljust ''callstack'' 32] @ lits ''[/] '')"
  by (simp add: parse_eval)

lemma parse_tail:
  "parse_format Text (bar @ '' [bold white]%(message)s[/]'')
   = Some (lits (bar @ '' [bold white]'') @ [field_s ''message''] @ lits ''[/]'')"
  by (simp add: parse_eval)

lemma parse_optional:
  assumes "parse_format Text c = Some ss"
  shows "parse_format Text ((if b then c else []) @ rest)
         = prepend (if b then ss else []) (parse_format Text rest)"
  using parse_format_append [OF assms, of rest] by simp

lemma log_format_parts:
  "log_format self =
     (bar @ '' %(asctime)s'')
     @ (if logger_show_time self then bar @ '' %(asctime)s '' else [])
     @ (if logger_show_tid self then bar @ '' [grey53]%(posixTID)-8s[/] '' else [])
     @ (if logger_show_name self then bar @ '' [grey53]%(name)-16s[/] '' else [])
     @ (if logger_show_funcname self then bar @ '' [grey53]%(funcName)-32s[/] '' else [])
     @ (if logger_show_callstack self then bar @ '' [grey53]%(callstack)-32s[/] '' else [])
     @ (bar @ '' [bold white]%(message)s[/]'')"
  by (simp add: log_format_def Let_def)

lemma parse_log_format: "parse_format Text (log_format self) = Some (log_segments self)"
  unfolding log_format_parts log_segments_def
  by (simp only: parse_format_append [OF parse_head] parse_optional [OF parse_time]
      parse_optional [OF parse_tid] parse_optional [OF parse_name]
      parse_optional [OF parse_funcname] parse_optional [OF parse_callstack]
      parse_tail prepend_simps prepend_prepend)

lemma segment_keys_append: "segment_keys (ss @ ts) = segment_keys ss @ segment_keys ts"
  by (induction ss rule: segment_keys.induct) simp_all

lemma segment_keys_lits: "segment_keys (lits s) = []"
  by (induction s) (simp_all add: lits_def)

lemma segment_keys_fields:
  "segment_keys [field_s k] = [k]"
  "segment_keys [field_ljust k w] = [k]"
  by (simp_all add: field_s_def field_ljust_def)

lemma format_fields_log_format: "format_fields (log_format self) = log_fields self"
  by (simp add: format_fields_def parse_log_format log_segments_def log_fields_def
      segment_keys_append segment_keys_lits segment_keys_fields
      del: append.simps append_Cons append_Nil)

lemma starts_with_append: "starts_with p s \<Longrightarrow> starts_with p (s @ t)"
  by (induction p s rule: starts_with.induct) simp_all

lemma contains_append: "contains p s \<Longrightarrow> contains p (s @ t)"
proof (induction s)
  case Nil
  then show ?case by (cases p; cases t) simp_all
next
  case (Cons c cs)
  then show ?case using starts_with_append [of p "c # cs" t] by auto
qed

lemma log_format_uses_time: "contains ''%(asctime)'' (log_format self)"
  unfolding log_format_parts
  by (rule contains_append) (simp add: bar_def)

subsection \<open>What \<open>Formatter.format\<close> and \<open>emit\<close> leave in the record\<close>

lemma format_record_fields:
  assumes "format rt f p = Inr (u, q)" and "contains ''%(asctime)'' (fmt f)"
  shows "\<exists>m t. getMessage rt p = Inr m \<and> strftime rt (datefmt f) (created p) = Inr t
           \<and> q = p\<lparr>message := Some m, asctime := Some t,
                   exc_text := (if exc_info p \<noteq> None \<and> (exc_text p = None \<or> exc_text p = Some [])
                                then exc_info p else exc_text p)\<rparr>"
proof -
  from assms obtain m where m: "getMessage rt p = Inr m"
    by (cases "getMessage rt p") (simp_all add: format_def)
  from assms m obtain t where t: "strftime rt (datefmt f) (created p) = Inr t"
    by (cases "strftime rt (datefmt f) (created p)") (simp_all add: format_def)
  from assms m t obtain s where s:
    "format_record rt (fmt f) (p\<lparr>message := Some m, asctime := Some t\<rparr>) = Inr s"
    by (cases "format_record rt (fmt f) (p\<lparr>message := Some m, asctime := Some t\<rparr>)")
       (simp_all add: format_def)
  from assms m t s
  have "q = p\<lparr>message := Some m, asctime := Some t,
              exc_text := (if exc_info p \<noteq> None \<and> (exc_text p = None \<or> exc_text p = Some [])
                           then exc_info p else exc_text p)\<rparr>"
    by (auto simp: format_def Let_def split: if_splits)
  with m t show ?thesis by blast
qed

lemma emit_entry_record:
  assumes "emit_entry rt h p = Inr (q, content)"
    and "formatter h = Some f" and "contains ''%(asctime)'' (fmt f)"
  shows "\<exists>m t. getMessage rt (escaped p) = Inr m \<and> strftime rt (datefmt f) (created p) = Inr t
           \<and> q = (escaped p)\<lparr>message := Some m, asctime := Some t,
                   exc_text := (if exc_info p \<noteq> None \<and> (exc_text p = None \<or> exc_text p = Some [])
                                then exc_info p else exc_text p)\<rparr>"
proof -
  from assms(1) obtain s where s: "msg p = PStr s"
    by (cases "msg p") (simp_all add: emit_entry_eq)
  from assms(1,2) s obtain u where f: "format rt f (escaped p) = Inr (u, q)"
    by (auto simp: emit_entry_eq split: sum.splits)
  from format_record_fields [OF f assms(3)] show ?thesis
    by (simp only: escaped_fields)
qed

subsection \<open>The state after \<open>on_mount\<close>, and handling under it\<close>

lemma on_mount_world:
  assumes "hook_keeps_logging (initialize app)"
  shows "root_handlers (snd (on_mount app w)) = [next_ref w]
    \<and> handler_objs (snd (on_mount app w)) (next_ref w) = mounted_handler app"
proof (cases "initialize app")
  case None
  then show ?thesis
    by (simp add: on_mount_def RichLogHandler_init_def addFilter_def setFormatter_def
      set_log_levels_def logging_helper_set_log_levels_def
      mounted_handler_def mounted_filters_def mounted_formatter_def Let_def)
next
  case (Some f)
  with assms have keep: "\<And>w. root_handlers (f w) = root_handlers w"
    "\<And>w. handler_objs (f w) = handler_objs w"
    by (simp_all add: hook_keeps_logging_def)
  from Some show ?thesis
    by (simp add: on_mount_def RichLogHandler_init_def addFilter_def setFormatter_def
      set_log_levels_def logging_helper_set_log_levels_def keep
      mounted_handler_def mounted_filters_def mounted_formatter_def Let_def)
qed

lemma filter_chain_mounted:
  "filter_chain rt (mounted_filters app) r = Inr (True, filtered rt app r)"
  by (simp add: mounted_filters_def filtered_def Let_def)

lemma filtered_fields:
  "callstack (filtered rt app r)
     = (if logger_show_callstack app then Some (stack_str rt r) else callstack r)"
  "posixTID (filtered rt app r)
     = (if logger_show_tid app
        then Some (native_id rt (if logger_show_callstack app
                                 then r\<lparr>callstack := Some (stack_str rt r)\<rparr> else r))
        else posixTID r)"
  "name (filtered rt app r) = short_name rt (name r)"
  "msg (filtered rt app r) = escape_arg (msg r)"
  "args (filtered rt app r) = args (escaped r)"
  "levelno (filtered rt app r) = levelno r"
  "levelname (filtered rt app r) = levelname r"
  "funcName (filtered rt app r) = funcName r"
  "created (filtered rt app r) = created r"
  "exc_info (filtered rt app r) = exc_info r"
  "exc_text (filtered rt app r) = exc_text r"
  "stack_info (filtered rt app r) = stack_info r"
  "markup (filtered rt app r) = markup r"
  "message (filtered rt app r) = message r"
  "asctime (filtered rt app r) = asctime r"
  by (simp_all add: filtered_def escaped_def Let_def)

lemma handle_mounted:
  assumes "handler_objs w self = mounted_handler app"
  shows "handle rt self r w =
           (case mounted_entry rt app r of
              Inl e \<Rightarrow> Inl e
            | Inr (q, content) \<Rightarrow>
                Inr (q, w\<lparr>widget_objs := (widget_objs w)
                          (richlog app :=
                             RichLog_write (widget_objs w (richlog app)) content)\<rparr>))"
proof -
  have f: "filters (mounted_handler app) = mounted_filters app"
    and wd: "widget (mounted_handler app) = richlog app"
    by (simp_all add: mounted_handler_def)
  show ?thesis
    unfolding handle_def emit_def assms f filter_chain_mounted mounted_entry_def
    by (simp add: wd Let_def split: sum.splits)
qed

lemma handle_each_mounted:
  assumes "handler_objs w self = mounted_handler app"
  shows "handler_objs (handle_each rt self rs w) self = mounted_handler app
       \<and> lines (widget_objs (handle_each rt self rs w) (richlog app))
         = lines (widget_objs w (richlog app)) @ List.map_filter (appended rt app) rs"
  using assms
proof (induction rs arbitrary: w)
  case Nil
  then show ?case by (simp add: List.map_filter_simps)
next
  case (Cons r rs)
  show ?case
  proof (cases "mounted_entry rt app r")
    case (Inl e)
    then have "handle rt self r w = Inl e"
      using handle_mounted [OF Cons.prems, of rt r] by simp
    then show ?thesis
      using Cons.IH [OF Cons.prems] Inl by (simp add: appended_def List.map_filter_simps)
  next
    case (Inr qc)
    obtain q content where qc: "qc = (q, content)" by (cases qc)
    let ?w' = "w\<lparr>widget_objs := (widget_objs w)
                 (richlog app := RichLog_write (widget_objs w (richlog app)) content)\<rparr>"
    have h: "handle rt self r w = Inr (q, ?w')"
      using handle_mounted [OF Cons.prems, of rt r] Inr qc by simp
    have "handler_objs ?w' self = mounted_handler app"
      using Cons.prems by simp
    from Cons.IH [OF this] show ?thesis
      using h Inr qc by (simp add: RichLog_write_def appended_def List.map_filter_simps)
  qed
qed



subsection \<open>Texts without markup\<close>

lemma no_markup_append [simp]: "no_markup (s @ t) = (no_markup s \<and> no_markup t)"
  by (auto simp: no_markup_def)

lemma no_markup_Cons:
  "no_markup (c # s) = (c \<noteq> CHR ''['' \<and> c \<noteq> backslash \<and> no_markup s)"
  by (auto simp: no_markup_def)

lemma no_markup_Nil [simp]: "no_markup []"
  by (simp add: no_markup_def)

lemma is_tag_other: "c \<noteq> CHR ''['' \<Longrightarrow> is_tag (c # cs) = False"
  by (cases cs) simp_all

lemma escape_from_no_markup: "no_markup s \<Longrightarrow> escape_from (Outside 0) s = s"
  by (induction s) (simp_all add: no_markup_Cons is_tag_other)

lemma ends_single_backslash_no_markup: "no_markup s \<Longrightarrow> \<not> ends_single_backslash s"
proof (cases "rev s")
  case Nil
  then show ?thesis by simp
next
  case (Cons c cs)
  assume "no_markup s"
  moreover have "c \<in> set s"
    using Cons by (metis list.set_intros(1) set_rev)
  ultimately have "c \<noteq> backslash"
    by (auto simp: no_markup_def)
  then show ?thesis
    using Cons by (simp split: list.splits)
qed

lemma markup_escape_no_markup: "no_markup s \<Longrightarrow> markup_escape s = s"
  by (simp add: markup_escape_def escape_from_no_markup ends_single_backslash_no_markup
      del: ends_single_backslash.simps)

lemma tokenize_no_markup:
  "no_markup s \<Longrightarrow> tokenize (Scan acc 0) (s @ rest) = tokenize (Scan (acc @ s) 0) rest"
  by (induction s arbitrary: acc) (simp_all add: no_markup_Cons is_tag_other)

lemma unescape_brackets_no_markup: "no_markup s \<Longrightarrow> unescape_brackets s = s"
  by (induction s rule: unescape_brackets.induct) (simp_all add: no_markup_Cons)

lemma no_markup_bar [simp]: "no_markup bar"
  by (simp add: no_markup_def bar_def backslash_def)

text \<open>The tokens of the text that the format with every toggle off makes of a plain record.\<close>

lemma tokenize_plain_text:
  assumes "no_markup t" and "no_markup s"
  shows "tokenize (Scan [] 0) (bar @ '' '' @ t @ bar @ '' [bold white]'' @ s @ ''[/]'')
         = [Plain (bar @ '' '' @ t @ bar @ '' ''), TagTok ''bold white'']
           @ (if s = [] then [] else [Plain s]) @ [TagTok ''/'']"
proof -
  have pre: "no_markup (bar @ '' '' @ t @ bar @ '' '')"
    using assms by (simp add: no_markup_Cons backslash_def)
  have ne: "bar @ '' '' @ t @ bar @ '' '' \<noteq> []"
    by (simp add: bar_def)
  have split: "bar @ '' '' @ t @ bar @ '' [bold white]'' @ s @ ''[/]''
               = (bar @ '' '' @ t @ bar @ '' '') @ (''[bold white]'' @ s @ ''[/]'')"
    by simp
  have tail: "tokenize (Scan [] 0) (s @ ''[/]'')
              = (if s = [] then [] else [Plain s]) @ [TagTok ''/'']"
    unfolding tokenize_no_markup [OF assms(2)]
    by (simp add: backslash_def tag_start_def)
  have "tokenize (Scan (bar @ '' '' @ t @ bar @ '' '') 0) (''[bold white]'' @ s @ ''[/]'')
        = [Plain (bar @ '' '' @ t @ bar @ '' ''), TagTok ''bold white'']
          @ tokenize (Scan [] 0) (s @ ''[/]'')"
    using ne by (simp add: backslash_def tag_start_def)
  then show ?thesis
    unfolding split tokenize_no_markup [OF pre] tail by simp
qed

lemma from_markup_plain_text:
  assumes "no_markup t" and "no_markup s"
  shows "from_markup rt (bar @ '' '' @ t @ bar @ '' [bold white]'' @ s @ ''[/]'')
         = Inr \<lparr>plain = strip_control_codes (emoji_replace rt (bar @ '' '' @ t @ bar @ '' ''))
                        @ (if s = [] then []
                           else strip_control_codes (emoji_replace rt s)),
                spans = [(py_len (strip_control_codes
                                    (emoji_replace rt (bar @ '' '' @ t @ bar @ '' ''))),
                          py_len (strip_control_codes
                                    (emoji_replace rt (bar @ '' '' @ t @ bar @ '' ''))
                                  @ (if s = [] then []
                                     else strip_control_codes (emoji_replace rt s))),
                          normalize rt ''bold white'')]\<rparr>"
proof -
  have pre: "no_markup (bar @ '' '' @ t @ bar @ '' '')"
    using assms by (simp add: no_markup_Cons backslash_def)
  have br: "CHR ''['' \<in> set (bar @ '' '' @ t @ bar @ '' [bold white]'' @ s @ ''[/]'')"
    by simp
  have un: "unescape_brackets (bar @ CHR '' '' # t @ bar @ '' '') = bar @ CHR '' '' # t @ bar @ '' ''"
    using unescape_brackets_no_markup [OF pre] by simp
  show ?thesis
    unfolding from_markup_def tokenize_plain_text [OF assms]
    using br
    by (simp add: tag_name_def tag_parameters_def close_span_def finish_spans_def
        un unescape_brackets_no_markup [OF assms(2)])
qed

subsection \<open>The application with every toggle off\<close>

lemma plain_app_fields:
  "initialize (fst (plain_app w)) = None"
  "richlog (fst (plain_app w)) = next_ref w"
  "next_ref (snd (plain_app w)) = Suc (next_ref w)"
  "lines (widget_objs (snd (plain_app w)) (next_ref w)) = []"
  "\<not> logger_show_level (fst (plain_app w))"
  "\<not> logger_show_time (fst (plain_app w))"
  "\<not> logger_show_tid (fst (plain_app w))"
  "\<not> logger_show_name (fst (plain_app w))"
  "\<not> logger_show_funcname (fst (plain_app w))"
  "\<not> logger_show_callstack (fst (plain_app w))"
  by (simp_all add: plain_app_def TuiBaseApp_init_def)

lemma plain_app_toggles_off: "toggles_off (fst (plain_app w))"
  by (simp add: toggles_off_def plain_app_fields)

lemma log_format_toggles_off:
  "toggles_off app \<Longrightarrow>
   log_format app = bar @ '' %(asctime)s'' @ bar @ '' [bold white]%(message)s[/]''"
  by (simp add: log_format_def toggles_off_def Let_def)

lemma format_record_toggles_off:
  "toggles_off app \<Longrightarrow>
   format_record rt (log_format app) (p\<lparr>message := Some m, asctime := Some t\<rparr>)
   = Inr (bar @ '' '' @ t @ bar @ '' [bold white]'' @ m @ ''[/]'')"
  unfolding log_format_toggles_off
  by (simp add: format_record_def bar_def before_def pad_def rjust_def record_dict_def
      known_keys_def is_digit_def)

text \<open>\<open>Formatter.format\<close> under that format, for a record without traceback or stack text.\<close>

lemma format_toggles_off:
  assumes "toggles_off app" and "getMessage rt p = Inr m"
    and "strftime rt (Some ''%Y-%m-%d %H:%M:%S'') (created p) = Inr t"
    and "exc_info p = None" and "exc_text p = None" and "stack_info p = None"
  shows "format rt (mounted_formatter app) p
         = Inr (bar @ '' '' @ t @ bar @ '' [bold white]'' @ m @ ''[/]'',
                p\<lparr>message := Some m, asctime := Some t\<rparr>)"
  using assms
  by (simp add: format_def mounted_formatter_def log_format_uses_time
      format_record_toggles_off Let_def)

text \<open>What handling makes of a plain record when the format toggles are off.\<close>

lemma plain_entry:
  assumes off: "toggles_off app"
    and ms: "msg r = PStr s" and ns: "no_markup s" and na: "\<not> truthy (args r)"
    and ex: "exc_info r = None" "exc_text r = None" "stack_info r = None"
    and mk: "markup r = None"
    and tm: "strftime rt (Some ''%Y-%m-%d %H:%M:%S'') (created r) = Inr t" and nt: "no_markup t"
    and ft: "fromtimestamp rt (created r) = None"
  shows "mounted_entry rt app r
         = Inr (r\<lparr>name := short_name rt (name r), message := Some s, asctime := Some t\<rparr>,
                \<lparr>level_text = strip_control_codes (ljust 8 (levelname r)),
                 message_text =
                   \<lparr>plain = shown rt (bar @ '' '' @ t @ bar @ '' '') @ shown rt s,
                    spans = (py_len (shown rt (bar @ '' '' @ t @ bar @ '' '')),
                             py_len (shown rt (bar @ '' '' @ t @ bar @ '' '') @ shown rt s),
                             normalize rt ''bold white'')
                            # highlight rt
                                (r\<lparr>name := short_name rt (name r), message := Some s,
                                   asctime := Some t\<rparr>)
                                (shown rt (bar @ '' '' @ t @ bar @ '' '') @ shown rt s)\<rparr>\<rparr>)"
proof -
  let ?p = "escaped (filtered rt app r)"
  have esc: "markup_escape s = s"
    using ns by (rule markup_escape_no_markup)
  have p: "?p = r\<lparr>name := short_name rt (name r)\<rparr>"
    using off ms na by (simp add: filtered_def escaped_def toggles_off_def esc Let_def)
  have m: "getMessage rt ?p = Inr s"
    unfolding p using ms na by (simp add: getMessage_def)
  have f: "format rt (mounted_formatter app) ?p
           = Inr (bar @ '' '' @ t @ bar @ '' [bold white]'' @ s @ ''[/]'',
                  ?p\<lparr>message := Some s, asctime := Some t\<rparr>)"
    by (rule format_toggles_off [OF off m]) (simp_all add: p tm ex)
  have fm: "formatter (mounted_handler app) = Some (mounted_formatter app)"
    by (simp add: mounted_handler_def)
  have fs: "msg (filtered rt app r) = PStr s"
    using ms by (simp add: filtered_fields esc)
  let ?q = "?p\<lparr>message := Some s, asctime := Some t\<rparr>"
  let ?u = "bar @ '' '' @ t @ bar @ '' [bold white]'' @ s @ ''[/]''"
  let ?a = "strip_control_codes (emoji_replace rt (bar @ '' '' @ t @ bar @ '' ''))"
  let ?b = "if s = [] then [] else strip_control_codes (emoji_replace rt s)"
  let ?mt = "\<lparr>plain = ?a @ ?b,
              spans = [(py_len ?a, py_len (?a @ ?b), normalize rt ''bold white'')]
                      @ highlight rt ?q (?a @ ?b)\<rparr>"
  let ?content = "\<lparr>level_text = strip_control_codes (ljust 8 (levelname r)),
                   message_text = ?mt\<rparr>"
  have mq: "markup ?q = None" and cr: "fromtimestamp rt (created ?q) = None"
    and ln: "levelname ?q = levelname r"
    by (simp_all add: p mk ft)
  have rm: "render_message rt ?q ?u = Inr ?mt"
    unfolding render_message_def mq from_markup_plain_text [OF nt ns]
    by simp
  have rd: "render rt ?q ?mt = Inr ?content"
    unfolding render_def cr ln by simp
  have "mounted_entry rt app r = Inr (?q, ?content)"
    unfolding mounted_entry_def emit_entry_eq fs fm
    by (simp only: pyval.case option.case sum.case prod.case f rm rd)
  moreover have "bar @ '' '' @ t @ bar @ '' '' \<noteq> []"
    by (simp add: bar_def)
  ultimately show ?thesis
    by (simp add: p shown_def)
qed

lemma on_mount_widgets:
  "initialize app = None \<Longrightarrow> widget_objs (snd (on_mount app w)) = widget_objs w"
  by (simp add: on_mount_def RichLogHandler_init_def addFilter_def setFormatter_def
      set_log_levels_def logging_helper_set_log_levels_def Let_def)

lemma plain_app_mounted:
  "root_handlers (mounted (plain_app w)) = [Suc (next_ref w)]"
  "handler_objs (mounted (plain_app w)) (Suc (next_ref w)) = mounted_handler (fst (plain_app w))"
  "lines (widget_objs (mounted (plain_app w)) (next_ref w)) = []"
proof -
  have "hook_keeps_logging (initialize (fst (plain_app w)))"
    by (simp add: plain_app_fields hook_keeps_logging_def)
  from on_mount_world [OF this, of "snd (plain_app w)"]
  show "root_handlers (mounted (plain_app w)) = [Suc (next_ref w)]"
    and "handler_objs (mounted (plain_app w)) (Suc (next_ref w))
         = mounted_handler (fst (plain_app w))"
    by (simp_all add: mounted_def plain_app_fields)
  show "lines (widget_objs (mounted (plain_app w)) (next_ref w)) = []"
    by (simp add: mounted_def on_mount_widgets plain_app_fields)
qed

lemma handle_each_plain_app:
  "lines (widget_objs (handle_each rt (Suc (next_ref w)) rs (mounted (plain_app w))) (next_ref w))
   = List.map_filter (appended rt (fst (plain_app w))) rs"
  using handle_each_mounted [of "mounted (plain_app w)" "Suc (next_ref w)" "fst (plain_app w)" rt rs,
          OF plain_app_mounted(2)]
  by (simp add: plain_app_fields plain_app_mounted)

lemma handle_each_example:
  "lines (widget_objs (handle_each rt 6 rs (mounted (plain_app example_world))) 5)
   = List.map_filter (appended rt (fst (plain_app example_world))) rs"
  using handle_each_plain_app [of rt example_world rs]
  by (simp add: example_world_def)

lemma example_mounted:
  "root_handlers (mounted (plain_app example_world)) = [6]"
  "handler_objs (mounted (plain_app example_world)) 6
   = mounted_handler (fst (plain_app example_world))"
  "lines (widget_objs (mounted (plain_app example_world)) 5) = []"
  using plain_app_mounted [of example_world] by (simp_all add: example_world_def)

text \<open>
  Handling any record under the format with the toggles off, step by step: the message,
  the time stamp, the markup of the formatted text.
\<close>

lemma mounted_entry_toggles_off:
  assumes off: "toggles_off app"
    and ms: "msg r = PStr s"
    and gm: "getMessage rt (escaped (filtered rt app r)) = Inr m"
    and tm: "strftime rt (Some ''%Y-%m-%d %H:%M:%S'') (created r) = Inr t"
    and ex: "exc_info r = None" "exc_text r = None" "stack_info r = None"
    and rm: "render_message rt
               ((escaped (filtered rt app r))\<lparr>message := Some m, asctime := Some t\<rparr>)
               (bar @ '' '' @ t @ bar @ '' [bold white]'' @ m @ ''[/]'') = Inr mt"
    and ft: "fromtimestamp rt (created r) = None"
  shows "mounted_entry rt app r
         = Inr ((escaped (filtered rt app r))\<lparr>message := Some m, asctime := Some t\<rparr>,
                \<lparr>level_text = strip_control_codes (ljust 8 (levelname r)),
                 message_text = mt\<rparr>)"
proof -
  let ?p = "escaped (filtered rt app r)"
  let ?q = "?p\<lparr>message := Some m, asctime := Some t\<rparr>"
  have f: "format rt (mounted_formatter app) ?p
           = Inr (bar @ '' '' @ t @ bar @ '' [bold white]'' @ m @ ''[/]'', ?q)"
    by (rule format_toggles_off [OF off gm])
       (simp_all add: escaped_fields filtered_fields tm ex)
  have fm: "formatter (mounted_handler app) = Some (mounted_formatter app)"
    by (simp add: mounted_handler_def)
  have fs: "msg (filtered rt app r) = PStr (markup_escape s)"
    using ms by (simp add: filtered_fields)
  have rd: "render rt ?q mt
            = Inr \<lparr>level_text = strip_control_codes (ljust 8 (levelname r)),
                   message_text = mt\<rparr>"
    by (simp add: render_def escaped_fields filtered_fields ft)
  show ?thesis
    unfolding mounted_entry_def emit_entry_eq fs fm
    by (simp only: pyval.case option.case sum.case prod.case f rm rd)
qed


lemma mounted_entry_not_string:
  assumes "\<And>s. msg r \<noteq> PStr s"
  shows "mounted_entry rt app r = Inl TypeError"
proof (cases "msg r")
  case (PStr s)
  with assms show ?thesis by blast
qed (simp_all add: mounted_entry_def emit_entry_eq filtered_fields)


subsection \<open>Two records handled in the example state\<close>

text \<open>The record with the message \<open>[b]x\<close>: escaped by the filter and again by \<open>emit\<close>.\<close>

lemma tagged_example_entry:
  "mounted_entry example_runtime (fst (plain_app example_world))
     (example_record\<lparr>msg := PStr ''[b]x''\<rparr>)
   = Inr (example_record
            \<lparr>msg := PStr (backslash # backslash # backslash # ''[b]x''),
             message := Some (backslash # backslash # backslash # ''[b]x''),
             asctime := Some ''2024-01-01 12:00:00''\<rparr>,
          \<lparr>level_text = ''INFO    '',
           message_text =
             \<lparr>plain = bar @ '' 2024-01-01 12:00:00'' @ bar @ '' '' @ backslash # ''[b]x'',
              spans = [(23, 28, ''bold white'')]\<rparr>\<rparr>)"
proof -
  let ?app = "fst (plain_app example_world)"
  let ?r = "example_record\<lparr>msg := PStr ''[b]x''\<rparr>"
  let ?m = "backslash # backslash # backslash # ''[b]x''"
  let ?p = "example_record\<lparr>msg := PStr ?m\<rparr>"
  let ?mt = "\<lparr>plain = bar @ '' 2024-01-01 12:00:00'' @ bar @ '' '' @ backslash # ''[b]x'',
              spans = [(23, 28, ''bold white'')]\<rparr>"
  have off: "toggles_off ?app"
    by (rule plain_app_toggles_off)
  have esc: "markup_escape ''[b]x'' = backslash # ''[b]x''"
    "markup_escape (backslash # ''[b]x'') = ?m"
    by (simp_all add: markup_escape_def backslash_def tag_start_def numeral_3_eq_3)
  have p: "escaped (filtered example_runtime ?app ?r) = ?p"
    using off
    by (simp add: filtered_def escaped_def toggles_off_def esc example_record_def
        example_runtime_def Let_def)
  have gm: "getMessage example_runtime (escaped (filtered example_runtime ?app ?r)) = Inr ?m"
    unfolding p by (simp add: getMessage_def example_record_def)
  have mk: "from_markup example_runtime
              (bar @ '' '' @ ''2024-01-01 12:00:00'' @ bar @ '' [bold white]'' @ ?m @ ''[/]'')
            = Inr ?mt"
    by (simp add: from_markup_def bar_def backslash_def tag_start_def tag_name_def
        tag_parameters_def close_span_def finish_spans_def strip_control_codes_def
        py_len_def is_continuation_def example_runtime_def)
  have rm: "render_message example_runtime
              ((escaped (filtered example_runtime ?app ?r))
                 \<lparr>message := Some ?m, asctime := Some ''2024-01-01 12:00:00''\<rparr>)
              (bar @ '' '' @ ''2024-01-01 12:00:00'' @ bar @ '' [bold white]'' @ ?m @ ''[/]'')
            = Inr ?mt"
    unfolding render_message_def mk p
    by (simp add: example_record_def example_runtime_def)
  have lv: "strip_control_codes (ljust 8 (levelname ?r)) = ''INFO    ''"
    by (simp add: example_record_def strip_control_codes_def ljust_def py_len_def
        is_continuation_def eval_nat_numeral)
  have "mounted_entry example_runtime ?app ?r
        = Inr ((escaped (filtered example_runtime ?app ?r))
                 \<lparr>message := Some ?m, asctime := Some ''2024-01-01 12:00:00''\<rparr>,
               \<lparr>level_text = strip_control_codes (ljust 8 (levelname ?r)),
                message_text = ?mt\<rparr>)"
    by (rule mounted_entry_toggles_off [OF off _ gm _ _ _ _ rm])
       (simp_all add: example_record_def example_runtime_def)
  then show ?thesis
    unfolding p lv by simp
qed




subsection \<open>Any toggles: the formatted text and its markup\<close>











lemma renders_optional:
  assumes "\<And>acc. renders rt (tokenize (Scan acc 0) (c @ rest))"
    and "\<And>acc. renders rt (tokenize (Scan acc 0) rest)"
  shows "renders rt (tokenize (Scan acc 0) ((if b then c else []) @ rest))"
  using assms by simp







subsection \<open>Events at the scrollback widget\<close>






section \<open>The claims\<close>

subsection \<open>The scrollback widget and the run method\<close>


text \<open>
  C9. When the event loop returns, \<open>execute\<close> has called the loop first and then the
  cleanup hook, on the state the loop ended in, exactly when the subclass defines one;
  in no run, whatever the loop does, is anything called before the loop.
\<close>

theorem execute_cleanup_after_loop:
  assumes "run_async w = Inr w1"
  shows "execute app run_async w =
           (Call_run_async # (case cleanup app of None \<Rightarrow> [] | Some hook \<Rightarrow> [Call_cleanup]),
            Inr (case cleanup app of None \<Rightarrow> w1 | Some hook \<Rightarrow> hook w1))
         \<and> takeWhile (\<lambda>c. c \<noteq> Call_run_async) (fst (execute app any_loop w')) = []"
  using assms by (simp add: execute_def split: option.splits sum.splits)

theorem execute_cleanup_after_loop_witness:
  "execute (fst (plain_app example_world)\<lparr>cleanup := Some (\<lambda>w. w\<lparr>root_handlers := []\<rparr>)\<rparr>)
     Inr example_world
   = ([Call_run_async, Call_cleanup], Inr (example_world\<lparr>root_handlers := []\<rparr>))
   \<and> fst (execute (fst (plain_app example_world)) Inr example_world) = [Call_run_async]"
  using execute_cleanup_after_loop
          [of Inr example_world example_world
              "fst (plain_app example_world)\<lparr>cleanup := Some (\<lambda>w. w\<lparr>root_handlers := []\<rparr>)\<rparr>"]
        execute_cleanup_after_loop
          [of Inr example_world example_world "fst (plain_app example_world)"]
  by (simp add: plain_app_def TuiBaseApp_init_def)

subsection \<open>The escaping step\<close>

text \<open>
  C10. When \<open>record.args\<close> is falsy (\<open>None\<close> or an empty collection), the escaping
  step returns it as it is and does not raise, although iterating \<open>None\<close> would.
\<close>

theorem escape_step_keeps_falsy_args:
  assumes "\<not> truthy (args r)"
  shows "escape_args (args r) = Inr (args r)
         \<and> map_sum id args (escape_record r) = Inr (args r)
         \<and> iter_args ArgsNone = Inl TypeError"
  using assms by (simp add: escape_args_def escape_record_def)

theorem escape_step_keeps_falsy_args_witness:
  "\<not> truthy (args example_record)
   \<and> escape_args (args example_record) = Inr ArgsNone
   \<and> map_sum id args (escape_record example_record) = Inr ArgsNone
   \<and> escape_args (ArgsTuple []) = Inr (ArgsTuple [])"
  using escape_step_keeps_falsy_args [of example_record]
        escape_step_keeps_falsy_args [of "example_record\<lparr>args := ArgsTuple []\<rparr>"]
  by (simp add: example_record_def)

subsection \<open>What \<open>on_mount\<close> installs\<close>

text \<open>
  C8. After \<open>on_mount\<close> the root logger's handler list holds exactly one handler, the
  new one, which writes to the application's scrollback widget; what the list held
  before plays no part.
\<close>

theorem mount_replaces_root_handlers:
  assumes "hook_keeps_logging (initialize app)"
  shows "root_handlers (snd (on_mount app w)) = [next_ref w]
       \<and> widget (handler_objs (snd (on_mount app w)) (next_ref w)) = richlog app"
  using on_mount_world [OF assms, of w] by (simp add: mounted_handler_def)

theorem mount_replaces_root_handlers_witness:
  "root_handlers example_world = [3, 4]
   \<and> root_handlers (mounted (plain_app example_world)) = [6]
   \<and> widget (handler_objs (mounted (plain_app example_world)) 6) = 5"
  using mount_replaces_root_handlers
          [of "fst (plain_app example_world)" "snd (plain_app example_world)"]
  by (simp add: plain_app_fields hook_keeps_logging_def mounted_def example_world_def)

text \<open>
  C7. The filters of the installed handler are, in this order: the call-stack filter
  exactly when call-stack display is on, the thread-id filter exactly when thread-id
  display is on, the markup-escaping filter, the logger-name filter. Handling a record
  runs them in that order (\<open>filtered\<close>) and only then emits, that is, formats.
\<close>

theorem mount_installs_filters_in_order:
  assumes "hook_keeps_logging (initialize app)"
  shows "filters (handler_objs (snd (on_mount app w)) (next_ref w))
         = (if logger_show_callstack app then [callstack_filter] else [])
           @ (if logger_show_tid app then [thread_id_filter] else [])
           @ [markup_escape_filter, logger_name_filter]
       \<and> filter_chain rt (filters (handler_objs (snd (on_mount app w)) (next_ref w))) r
         = Inr (True, filtered rt app r)
       \<and> handle rt (next_ref w) r (snd (on_mount app w))
         = emit rt (next_ref w) (filtered rt app r) (snd (on_mount app w))"
proof -
  have h: "handler_objs (snd (on_mount app w)) (next_ref w) = mounted_handler app"
    using on_mount_world [OF assms] by blast
  have f: "filters (mounted_handler app) = mounted_filters app"
    by (simp add: mounted_handler_def)
  show ?thesis
    unfolding handle_def h f
    by (simp add: filter_chain_mounted) (simp add: mounted_filters_def)
qed

theorem mount_installs_filters_in_order_witness:
  "filters (handler_objs (mounted (full_app example_world)) 6)
   = [callstack_filter, thread_id_filter, markup_escape_filter, logger_name_filter]
   \<and> filters (handler_objs (mounted (plain_app example_world)) 6)
   = [markup_escape_filter, logger_name_filter]"
  using mount_installs_filters_in_order
          [of "fst (full_app example_world)" "snd (full_app example_world)"]
        mount_installs_filters_in_order
          [of "fst (plain_app example_world)" "snd (plain_app example_world)"]
  by (simp add: plain_app_def full_app_def TuiBaseApp_init_def hook_keeps_logging_def
      mounted_def example_world_def)

subsection \<open>The format string\<close>

text \<open>
  C2. The format string refers to \<open>asctime\<close> whatever the toggles are: once when time
  display is off, twice when it is on. With every toggle off the string is the fixed
  timestamp part followed by the message part. The other four toggles do govern the
  presence of their attribute.
\<close>

theorem time_toggle_does_not_govern_timestamp:
  "''asctime'' \<in> set (format_fields (log_format app))
   \<and> count_list (format_fields (log_format app)) ''asctime''
     = (if logger_show_time app then 2 else 1)
   \<and> log_format (fst (plain_app w)) = bar @ '' %(asctime)s'' @ bar @ '' [bold white]%(message)s[/]''
   \<and> (''posixTID'' \<in> set (format_fields (log_format app))) = logger_show_tid app
   \<and> (''name'' \<in> set (format_fields (log_format app))) = logger_show_name app
   \<and> (''funcName'' \<in> set (format_fields (log_format app))) = logger_show_funcname app
   \<and> (''callstack'' \<in> set (format_fields (log_format app))) = logger_show_callstack app"
proof -
  have plain: "log_format (fst (plain_app w))
               = bar @ '' %(asctime)s'' @ bar @ '' [bold white]%(message)s[/]''"
    by (rule log_format_toggles_off [OF plain_app_toggles_off])
  show ?thesis
    unfolding plain by (simp add: format_fields_log_format log_fields_def)
qed

text \<open>
  C6. An application constructed with every toggle off (the level toggle too), mounted,
  handling one INFO record with the message \<open>hello\<close> and no arguments: the scrollback
  holds one entry, and it is not made of the timestamp and the message only. It starts
  with the level column \<open>INFO\<close>, padded to eight characters: \<open>logger_show_level\<close> is
  stored by the constructor and never read, and the handler leaves \<open>show_level\<close> of
  \<open>RichHandler\<close> at its default. The message part has the timestamp and \<open>hello\<close>, and
  no name, call-stack, function-name or thread-id part.
\<close>

theorem level_column_shown_with_all_toggles_off:
  "map line_text
     (lines (widget_objs
        (handle_each example_runtime 6 [example_record] (mounted (plain_app example_world)))
        5))
   = [''INFO     '' @ bar @ '' 2024-01-01 12:00:00'' @ bar @ '' hello'']
   \<and> map level_text
       (lines (widget_objs
          (handle_each example_runtime 6 [example_record] (mounted (plain_app example_world)))
          5))
     = [''INFO    '']
   \<and> map (plain \<circ> message_text)
       (lines (widget_objs
          (handle_each example_runtime 6 [example_record] (mounted (plain_app example_world)))
          5))
     = [bar @ '' 2024-01-01 12:00:00'' @ bar @ '' hello'']
   \<and> \<not> logger_show_level (fst (plain_app example_world))
   \<and> toggles_off (fst (plain_app example_world))
   \<and> levelno example_record = INFO \<and> levelname example_record = ''INFO''
   \<and> msg example_record = PStr ''hello'' \<and> args example_record = ArgsNone
   \<and> format_fields (log_format (fst (plain_app example_world))) = [''asctime'', ''message'']"
proof -
  have pre: "msg example_record = PStr ''hello''" "no_markup ''hello''"
    "\<not> truthy (args example_record)"
    "exc_info example_record = None" "exc_text example_record = None"
    "stack_info example_record = None" "markup example_record = None"
    "strftime example_runtime (Some ''%Y-%m-%d %H:%M:%S'') (created example_record)
     = Inr ''2024-01-01 12:00:00''"
    "no_markup ''2024-01-01 12:00:00''"
    "fromtimestamp example_runtime (created example_record) = None"
    by (simp_all add: example_record_def example_runtime_def no_markup_def backslash_def)
  have line: "List.map_filter (appended example_runtime (fst (plain_app example_world)))
                     [example_record]
        = [\<lparr>level_text = ''INFO    '',
            message_text =
              \<lparr>plain = bar @ '' 2024-01-01 12:00:00'' @ bar @ '' hello'',
               spans = [(23, 28, ''bold white'')]\<rparr>\<rparr>]"
    unfolding List.map_filter_simps appended_def plain_entry [OF plain_app_toggles_off pre]
    by (simp add: shown_def strip_control_codes_def ljust_def py_len_def is_continuation_def
        bar_def example_record_def example_runtime_def eval_nat_numeral)
  have toggles: "\<not> logger_show_level (fst (plain_app example_world))"
    "toggles_off (fst (plain_app example_world))"
    by (simp_all add: plain_app_fields plain_app_toggles_off)
  have fields: "format_fields (log_format (fst (plain_app example_world)))
                = [''asctime'', ''message'']"
    using toggles(2) by (simp add: format_fields_log_format log_fields_def toggles_off_def)
  have rec: "levelno example_record = INFO" "levelname example_record = ''INFO''"
    "msg example_record = PStr ''hello''" "args example_record = ArgsNone"
    by (simp_all add: example_record_def INFO_def)
  show ?thesis
    unfolding handle_each_example line
    using toggles fields rec by (simp add: line_text_def)
qed

subsection \<open>Escaping and interpolation\<close>

text \<open>
  C3. The handler escapes the message and each string argument on its own and
  interpolates afterwards. For the message \<open>[%s]\<close> with the argument \<open>red\<close> neither
  part holds a tag, so neither is changed, and the text handed to the renderer holds
  the tag \<open>[red]\<close> unescaped, where the escaped form of \<open>[red]\<close> is \<open>\[red]\<close>. The
  renderer takes it for a style: the entry shows nothing of the user's text, and carries
  a span of the style \<open>red\<close>.
\<close>

theorem split_tag_reaches_renderer_unescaped:
  "map_sum id fst
     (format example_runtime (mounted_formatter (fst (plain_app example_world)))
        (escaped (filtered example_runtime (fst (plain_app example_world))
           (example_record\<lparr>msg := PStr ''[%s]'', args := ArgsTuple [PStr ''red'']\<rparr>))))
   = Inr (bar @ '' 2024-01-01 12:00:00'' @ bar @ '' [bold white][red][/]'')
   \<and> map line_text
       (lines (widget_objs
          (handle_each example_runtime 6
             [example_record\<lparr>msg := PStr ''[%s]'', args := ArgsTuple [PStr ''red'']\<rparr>]
             (mounted (plain_app example_world)))
          5))
     = [''INFO     '' @ bar @ '' 2024-01-01 12:00:00'' @ bar @ '' '']
   \<and> concat (map (spans \<circ> message_text)
       (lines (widget_objs
          (handle_each example_runtime 6
             [example_record\<lparr>msg := PStr ''[%s]'', args := ArgsTuple [PStr ''red'']\<rparr>]
             (mounted (plain_app example_world)))
          5)))
     = [(23, 23, ''bold white''), (23, 23, ''red'')]
   \<and> markup_escape ''[%s]'' = ''[%s]''
   \<and> markup_escape ''red'' = ''red''
   \<and> markup_escape ''[red]'' = backslash # ''[red]''
   \<and> is_tag ''[red][/]''"
proof -
  let ?app = "fst (plain_app example_world)"
  let ?r = "example_record\<lparr>msg := PStr ''[%s]'', args := ArgsTuple [PStr ''red'']\<rparr>"
  let ?p = "?r\<lparr>name := short_name example_runtime (name example_record)\<rparr>"
  let ?u = "bar @ '' '' @ ''2024-01-01 12:00:00'' @ bar @ '' [bold white]'' @ ''[red]'' @ ''[/]''"
  let ?q = "?p\<lparr>message := Some ''[red]'', asctime := Some ''2024-01-01 12:00:00''\<rparr>"
  let ?mt = "\<lparr>plain = bar @ '' 2024-01-01 12:00:00'' @ bar @ '' '',
              spans = [(23, 23, ''bold white''), (23, 23, ''red'')]\<rparr>"
  have esc: "markup_escape ''[%s]'' = ''[%s]''" "markup_escape ''red'' = ''red''"
    "markup_escape ''[red]'' = backslash # ''[red]''" "is_tag ''[red][/]''"
    by (simp_all add: markup_escape_def backslash_def tag_start_def)
  have off: "toggles_off ?app"
    by (rule plain_app_toggles_off)
  have p: "escaped (filtered example_runtime ?app ?r) = ?p"
    using off by (simp add: filtered_def escaped_def toggles_off_def esc example_record_def Let_def)
  have m: "getMessage example_runtime ?p = Inr ''[red]''"
    by (simp add: getMessage_def percent_def before_def pad_def rjust_def is_digit_def
        example_record_def)
  have f: "format example_runtime (mounted_formatter ?app) ?p = Inr (?u, ?q)"
    by (rule format_toggles_off [OF off m])
       (simp_all add: example_record_def example_runtime_def)
  have fs: "msg (filtered example_runtime ?app ?r) = PStr ''[%s]''"
    by (simp add: filtered_fields esc)
  have fm: "formatter (mounted_handler ?app) = Some (mounted_formatter ?app)"
    by (simp add: mounted_handler_def)
  have mk: "from_markup example_runtime ?u
            = Inr \<lparr>plain = bar @ '' 2024-01-01 12:00:00'' @ bar @ '' '',
                   spans = [(23, 23, ''bold white''), (23, 23, ''red'')]\<rparr>"
    by (simp add: from_markup_def bar_def backslash_def tag_start_def tag_name_def
        tag_parameters_def close_span_def finish_spans_def strip_control_codes_def
        py_len_def is_continuation_def example_runtime_def)
  have rm: "render_message example_runtime ?q ?u = Inr ?mt"
    unfolding render_message_def mk
    by (simp add: example_record_def example_runtime_def)
  have rd: "render example_runtime ?q ?mt
            = Inr \<lparr>level_text = ''INFO    '', message_text = ?mt\<rparr>"
    by (simp add: render_def example_record_def example_runtime_def strip_control_codes_def
        ljust_def py_len_def is_continuation_def eval_nat_numeral)
  have e: "mounted_entry example_runtime ?app ?r
           = Inr (?q, \<lparr>level_text = ''INFO    '', message_text = ?mt\<rparr>)"
    unfolding mounted_entry_def emit_entry_eq fs fm p
    by (simp only: pyval.case option.case sum.case prod.case f rm rd)
  have line: "List.map_filter (appended example_runtime ?app) [?r]
              = [\<lparr>level_text = ''INFO    '', message_text = ?mt\<rparr>]"
    unfolding List.map_filter_simps appended_def e by simp
  have handed: "map_sum id fst (format example_runtime (mounted_formatter ?app)
                (escaped (filtered example_runtime ?app ?r)))
              = Inr (bar @ '' 2024-01-01 12:00:00'' @ bar @ '' [bold white][red][/]'')"
    unfolding p f by simp
  show ?thesis
    unfolding handle_each_example line handed
    using esc by (simp add: line_text_def)
qed

subsection \<open>The record after handling\<close>

text \<open>
  C4. The claim that handling leaves the record unchanged fails. Handled by the
  installed handler, the record with the message \<open>[b]x\<close> comes back with three
  backslashes in front of its message (it is escaped by the escaping filter and again by
  \<open>emit\<close>), and with the attributes \<open>message\<close> and \<open>asctime\<close> that it did not have.
\<close>

theorem handling_mutates_record:
  "map_sum id (msg \<circ> fst)
     (handle example_runtime 6 (example_record\<lparr>msg := PStr ''[b]x''\<rparr>)
        (mounted (plain_app example_world)))
   = Inr (PStr (backslash # backslash # backslash # ''[b]x''))
   \<and> map_sum id (message \<circ> fst)
       (handle example_runtime 6 (example_record\<lparr>msg := PStr ''[b]x''\<rparr>)
          (mounted (plain_app example_world)))
     = Inr (Some (backslash # backslash # backslash # ''[b]x''))
   \<and> map_sum id (asctime \<circ> fst)
       (handle example_runtime 6 (example_record\<lparr>msg := PStr ''[b]x''\<rparr>)
          (mounted (plain_app example_world)))
     = Inr (Some ''2024-01-01 12:00:00'')
   \<and> msg (example_record\<lparr>msg := PStr ''[b]x''\<rparr>) = PStr ''[b]x''
   \<and> message (example_record\<lparr>msg := PStr ''[b]x''\<rparr>) = None
   \<and> asctime (example_record\<lparr>msg := PStr ''[b]x''\<rparr>) = None"
  unfolding handle_mounted [OF example_mounted(2)] tagged_example_entry
  by (simp add: example_record_def)

text \<open>
  C4, amended. What handling by the installed handler changes in a record, and what it
  leaves alone. The filters set \<open>callstack\<close> and \<open>posixTID\<close> when these are displayed,
  and rewrite the logger name; the message, which must be a string, and the string
  arguments are escaped twice over, by the escaping filter and by \<open>emit\<close>, and truthy
  arguments become a tuple; the formatter stores \<open>message\<close> and \<open>asctime\<close> and caches
  the traceback text in \<open>exc_text\<close>. Level, function name, creation time, exception
  and stack information and the \<open>markup\<close> attribute stay as they were.
\<close>

theorem handling_changes_record:
  assumes "hook_keeps_logging (initialize app)"
    and "handle rt (next_ref w) r (snd (on_mount app w)) = Inr (r', w')"
  shows "(\<exists>m t. getMessage rt (escaped (filtered rt app r)) = Inr m
            \<and> strftime rt (Some ''%Y-%m-%d %H:%M:%S'') (created r) = Inr t
            \<and> r' = (escaped (filtered rt app r))
                     \<lparr>message := Some m, asctime := Some t,
                      exc_text := (if exc_info r \<noteq> None
                                      \<and> (exc_text r = None \<or> exc_text r = Some [])
                                   then exc_info r else exc_text r)\<rparr>)
       \<and> (\<exists>s. msg r = PStr s)
       \<and> msg r' = escape_arg (escape_arg (msg r))
       \<and> args r' = args (escaped (escaped r))
       \<and> name r' = short_name rt (name r)
       \<and> callstack r'
         = (if logger_show_callstack app then Some (stack_str rt r) else callstack r)
       \<and> posixTID r'
         = (if logger_show_tid app
            then Some (native_id rt (if logger_show_callstack app
                                     then r\<lparr>callstack := Some (stack_str rt r)\<rparr> else r))
            else posixTID r)
       \<and> message r' \<noteq> None \<and> asctime r' \<noteq> None
       \<and> levelno r' = levelno r \<and> levelname r' = levelname r \<and> funcName r' = funcName r
       \<and> created r' = created r \<and> exc_info r' = exc_info r \<and> stack_info r' = stack_info r
       \<and> markup r' = markup r"
proof -
  have h: "handler_objs (snd (on_mount app w)) (next_ref w) = mounted_handler app"
    using on_mount_world [OF assms(1)] by blast
  from assms(2) obtain content where e: "mounted_entry rt app r = Inr (r', content)"
    unfolding handle_mounted [OF h] by (auto split: sum.splits)
  have fm: "formatter (mounted_handler app) = Some (mounted_formatter app)"
    by (simp add: mounted_handler_def)
  have tm: "contains ''%(asctime)'' (fmt (mounted_formatter app))"
    by (simp add: mounted_formatter_def log_format_uses_time)
  from emit_entry_record [OF e [unfolded mounted_entry_def] fm tm]
  obtain m t where m: "getMessage rt (escaped (filtered rt app r)) = Inr m"
    and t: "strftime rt (Some ''%Y-%m-%d %H:%M:%S'') (created r) = Inr t"
    and r': "r' = (escaped (filtered rt app r))
                    \<lparr>message := Some m, asctime := Some t,
                     exc_text := (if exc_info r \<noteq> None
                                     \<and> (exc_text r = None \<or> exc_text r = Some [])
                                  then exc_info r else exc_text r)\<rparr>"
    unfolding filtered_fields by (auto simp: mounted_formatter_def)
  have str: "\<exists>s. msg r = PStr s"
    using e mounted_entry_not_string [of r rt app] by (cases "msg r") auto
  have ar: "args (escaped (filtered rt app r)) = args (escaped (escaped r))"
    by (simp add: escaped_def filtered_fields)
  have fields: "msg r' = escape_arg (escape_arg (msg r))"
    "args r' = args (escaped (escaped r))"
    "name r' = short_name rt (name r)"
    "callstack r'
     = (if logger_show_callstack app then Some (stack_str rt r) else callstack r)"
    "posixTID r'
     = (if logger_show_tid app
        then Some (native_id rt (if logger_show_callstack app
                                 then r\<lparr>callstack := Some (stack_str rt r)\<rparr> else r))
        else posixTID r)"
    "message r' \<noteq> None" "asctime r' \<noteq> None"
    "levelno r' = levelno r" "levelname r' = levelname r" "funcName r' = funcName r"
    "created r' = created r" "exc_info r' = exc_info r" "stack_info r' = stack_info r"
    "markup r' = markup r"
    unfolding r' by (simp_all add: escaped_fields filtered_fields ar)
  from m t r' have "\<exists>m t. getMessage rt (escaped (filtered rt app r)) = Inr m
            \<and> strftime rt (Some ''%Y-%m-%d %H:%M:%S'') (created r) = Inr t
            \<and> r' = (escaped (filtered rt app r))
                     \<lparr>message := Some m, asctime := Some t,
                      exc_text := (if exc_info r \<noteq> None
                                      \<and> (exc_text r = None \<or> exc_text r = Some [])
                                   then exc_info r else exc_text r)\<rparr>"
    by blast
  with str fields show ?thesis
    by blast
qed

theorem handling_changes_record_witness:
  "map_sum id (msg \<circ> fst)
     (handle example_runtime 6 (example_record\<lparr>msg := PStr ''[b]x''\<rparr>)
        (mounted (plain_app example_world)))
   = Inr (escape_arg (escape_arg (PStr ''[b]x'')))
   \<and> map_sum id (name \<circ> fst)
       (handle example_runtime 6 (example_record\<lparr>msg := PStr ''[b]x''\<rparr>)
          (mounted (plain_app example_world)))
     = Inr ''trickkiste.base_app''
   \<and> map_sum id (levelno \<circ> fst)
       (handle example_runtime 6 (example_record\<lparr>msg := PStr ''[b]x''\<rparr>)
          (mounted (plain_app example_world)))
     = Inr 20
   \<and> map_sum id (posixTID \<circ> fst)
       (handle example_runtime 6 (example_record\<lparr>msg := PStr ''[b]x''\<rparr>)
          (mounted (plain_app example_world)))
     = Inr None"
proof -
  let ?app = "fst (plain_app example_world)"
  let ?w = "snd (plain_app example_world)"
  let ?r = "example_record\<lparr>msg := PStr ''[b]x''\<rparr>"
  have m: "snd (on_mount ?app ?w) = mounted (plain_app example_world)" "next_ref ?w = 6"
    by (simp_all add: mounted_def plain_app_fields example_world_def)
  obtain r' w' where e: "handle example_runtime (next_ref ?w) ?r (snd (on_mount ?app ?w))
                         = Inr (r', w')"
    unfolding m handle_mounted [OF example_mounted(2)] tagged_example_entry by simp
  have hook: "hook_keeps_logging (initialize ?app)"
    by (simp add: plain_app_fields hook_keeps_logging_def)
  from handling_changes_record [OF hook e]
  have "msg r' = escape_arg (escape_arg (PStr ''[b]x''))" "name r' = ''trickkiste.base_app''"
    "levelno r' = 20" "posixTID r' = None"
    by (simp_all add: example_record_def example_runtime_def plain_app_fields)
  then show ?thesis
    using e [unfolded m] by simp
qed

subsection \<open>One entry per record, in order\<close>




end
